theory Spec2Isabelle
  imports Complex_Main "HOL-Library.Sublist" "HOL-Library.Multiset"
begin

section \<open>The TTL cache\<close>

text \<open>
  \<^verbatim>\<open>_CACHE: Dict[str, Tuple[datetime, Any]]\<close> maps a key to the pair of the instant of
  the fetch and the payload. An instant is the number of microseconds since the epoch
  (the resolution of \<^verbatim>\<open>datetime\<close>), a \<^verbatim>\<open>timedelta\<close> a number of microseconds.
\<close>

type_synonym instant = int

type_synonym 'p cache = "string \<rightharpoonup> (instant \<times> 'p)"

definition CACHE_TTL_SECONDS :: int where
  "CACHE_TTL_SECONDS = 15"

definition timedelta_seconds :: "int \<Rightarrow> int" where
  "timedelta_seconds s = s * 1000000"

text \<open>
  \<^verbatim>\<open>cache_get\<close> reads the clock once (\<open>now\<close>) and returns the payload together with the
  cache it leaves behind: a stale entry is popped. A stored row is a non-empty tuple, so
  \<^verbatim>\<open>if not row\<close> is the test for a missing key.
\<close>

definition cache_get :: "instant \<Rightarrow> string \<Rightarrow> 'p cache \<Rightarrow> 'p option \<times> 'p cache" where
  "cache_get now key c =
     (case c key of
        None \<Rightarrow> (None, c)
      | Some (ts, payload) \<Rightarrow>
          if now - ts > timedelta_seconds CACHE_TTL_SECONDS then (None, c(key := None))
          else (Some payload, c))"

definition cache_set :: "instant \<Rightarrow> string \<Rightarrow> 'p \<Rightarrow> 'p cache \<Rightarrow> 'p cache" where
  "cache_set now key payload c = c(key \<mapsto> (now, payload))"

section \<open>Candle frames\<close>

text \<open>
  A float column value is a real number or NaN, written \<open>None\<close>: IEEE doubles are
  idealised as reals, except where a theorem depends on the rounding (the stop and target
  levels, see \<open>stop_loss\<close>). A timestamp is the number of seconds since the epoch (UTC)
  or the missing timestamp NaT, written \<open>None\<close>. A data frame is the list of its rows in
  index order; \<open>raw_frame\<close> is a frame whose price cells may be NaN, \<open>frame\<close> one
  whose price cells are all numbers (what \<^verbatim>\<open>dropna\<close> on the prices and \<^verbatim>\<open>fillna\<close> on
  the volume leave); the timestamp of a row of either may be NaT. \<open>dated_frame\<close> is a
  frame indexed by instants, as \<^verbatim>\<open>resample\<close> bins it.
\<close>

text \<open>
  An exception is represented by its message, \<^verbatim>\<open>str(e)\<close>; the messages of library
  exceptions are shortened to fixed strings.
\<close>

type_synonym exn = string

type_synonym pyfloat = "real option"

type_synonym stamp = "int option"

record ('t, 'v) ohlcv =
  timestamp :: 't
  popen :: 'v
  high :: 'v
  low :: 'v
  pclose :: 'v
  volume :: 'v

type_synonym raw_frame = "(stamp, pyfloat) ohlcv list"

type_synonym frame = "(stamp, real) ohlcv list"

type_synonym dated_frame = "(int, pyfloat) ohlcv list"

definition to_raw :: "('t, real) ohlcv \<Rightarrow> ('t, pyfloat) ohlcv" where
  "to_raw r = \<lparr>timestamp = timestamp r, popen = Some (popen r), high = Some (high r),
               low = Some (low r), pclose = Some (pclose r), volume = Some (volume r)\<rparr>"

text \<open>
  The cleaning that \<^verbatim>\<open>candles_to_df\<close> and \<^verbatim>\<open>batch_predict\<close> both apply:
  \<^verbatim>\<open>df.dropna(subset=["open","high","low","close"])\<close> and then
  \<^verbatim>\<open>df["volume"].fillna(0)\<close>.
\<close>

definition clean_row :: "('t, pyfloat) ohlcv \<Rightarrow> ('t, real) ohlcv option" where
  "clean_row r =
     (case (popen r, high r, low r, pclose r) of
        (Some o', Some h, Some l, Some c) \<Rightarrow>
          Some \<lparr>timestamp = timestamp r, popen = o', high = h, low = l, pclose = c,
                volume = (case volume r of None \<Rightarrow> 0 | Some v \<Rightarrow> v)\<rparr>
      | _ \<Rightarrow> None)"

definition clean_rows :: "raw_frame \<Rightarrow> frame" where
  "clean_rows df = List.map_filter clean_row df"

text \<open>
  \<^verbatim>\<open>sort_values("timestamp")\<close>: the rows that have a timestamp in ascending order, then
  the rows whose timestamp is NaT (\<^verbatim>\<open>na_position="last"\<close>) in their input order. The
  order numpy gives to rows of equal timestamp is not specified; the model keeps their
  input order, and no theorem below depends on it.
\<close>

definition has_stamp :: "(stamp, 'v) ohlcv \<Rightarrow> bool" where
  "has_stamp r \<longleftrightarrow> timestamp r \<noteq> None"

definition stamp_key :: "(stamp, 'v) ohlcv \<Rightarrow> int" where
  "stamp_key r = (case timestamp r of None \<Rightarrow> 0 | Some t \<Rightarrow> t)"

definition sort_values :: "(stamp, 'v) ohlcv list \<Rightarrow> (stamp, 'v) ohlcv list" where
  "sort_values df =
     sort_key stamp_key (filter has_stamp df) @ filter (\<lambda>r. \<not> has_stamp r) df"

subsection \<open>Client-supplied candles\<close>

text \<open>
  \<^verbatim>\<open>CandleWindow\<close>: the lists of a client window. \<open>cw_volume\<close> is optional; the request
  parser stores \<^verbatim>\<open>None\<close> for a missing one, which \<^verbatim>\<open>pd.DataFrame\<close> broadcasts to a
  column of missing values.
\<close>

record CandleWindow =
  cw_timestamp :: "string list"
  cw_open :: "pyfloat list"
  cw_high :: "pyfloat list"
  cw_low :: "pyfloat list"
  cw_close :: "pyfloat list"
  cw_volume :: "pyfloat list option"

definition window_rows :: "stamp list \<Rightarrow> CandleWindow \<Rightarrow> raw_frame" where
  "window_rows ts obj =
     map (\<lambda>i. \<lparr>timestamp = ts ! i, popen = cw_open obj ! i, high = cw_high obj ! i,
                low = cw_low obj ! i, pclose = cw_close obj ! i,
                volume = (case cw_volume obj of None \<Rightarrow> None | Some vs \<Rightarrow> vs ! i)\<rparr>)
         [0 ..< length ts]"

definition same_length :: "nat \<Rightarrow> CandleWindow \<Rightarrow> bool" where
  "same_length n obj \<longleftrightarrow>
     length (cw_open obj) = n \<and> length (cw_high obj) = n \<and> length (cw_low obj) = n \<and>
     length (cw_close obj) = n \<and>
     (case cw_volume obj of None \<Rightarrow> True | Some vs \<Rightarrow> length vs = n)"

text \<open>
  \<^verbatim>\<open>pd.to_datetime\<close> on one string: it raises (\<open>ParseError\<close>), or it gives an instant
  or, for the empty string and the strings pandas reads as missing, NaT.
\<close>

datatype parse_result = ParseError | Parsed stamp

fun parse_all :: "(string \<Rightarrow> parse_result) \<Rightarrow> string list \<Rightarrow> stamp list option" where
  "parse_all parse [] = Some []"
| "parse_all parse (x # xs) =
     (case parse x of
        ParseError \<Rightarrow> None
      | Parsed t \<Rightarrow> (case parse_all parse xs of None \<Rightarrow> None | Some ts \<Rightarrow> Some (t # ts)))"

text \<open>
  \<^verbatim>\<open>candles_to_df\<close>. \<open>parse\<close> stands for \<^verbatim>\<open>pd.to_datetime\<close>; the call on the list
  raises when one string does. \<^verbatim>\<open>pd.DataFrame\<close> raises on columns of different lengths.
  The time-zone normalisation changes neither an instant nor NaT. A row whose timestamp
  is NaT stays: \<^verbatim>\<open>dropna\<close> looks at the four prices only.
\<close>

definition candles_to_df :: "(string \<Rightarrow> parse_result) \<Rightarrow> CandleWindow \<Rightarrow> exn + frame" where
  "candles_to_df parse obj =
     (case parse_all parse (cw_timestamp obj) of
        None \<Rightarrow> Inl ''Unknown datetime string format''
      | Some ts \<Rightarrow>
          if \<not> same_length (length ts) obj then Inl ''All arrays must be of the same length''
          else Inr (sort_values (clean_rows (window_rows ts obj))))"

subsection \<open>The aggregator\<close>

text \<open>
  \<^verbatim>\<open>offset_map\<close>, as the number of minutes of the pandas offset alias.
\<close>

definition offset_map :: "string \<Rightarrow> nat option" where
  "offset_map tf =
     (if tf = ''5m'' then Some 5 else if tf = ''15m'' then Some 15
      else if tf = ''1h'' then Some 60 else if tf = ''4h'' then Some 240 else None)"

text \<open>
  \<^verbatim>\<open>resample\<close> bins are left-closed and left-labelled, aligned to midnight; all four
  widths divide a day, so the bin of a timestamp is its floor division by the width.
\<close>

definition bin_width :: "nat \<Rightarrow> int" where
  "bin_width m = 60 * int m"

definition bin_of :: "nat \<Rightarrow> int \<Rightarrow> int" where
  "bin_of m ts = ts div bin_width m"

text \<open>
  The pandas reductions skip NaN: \<^verbatim>\<open>first\<close> and \<^verbatim>\<open>last\<close> give the first and last
  value that is not NaN, \<^verbatim>\<open>max\<close> and \<^verbatim>\<open>min\<close> range over the values that are not NaN
  (all four are NaN for a bin with none), and \<^verbatim>\<open>sum\<close> adds them (0 for a bin with none).
\<close>

fun first_valid :: "pyfloat list \<Rightarrow> pyfloat" where
  "first_valid [] = None"
| "first_valid (None # xs) = first_valid xs"
| "first_valid (Some x # xs) = Some x"

definition last_valid :: "pyfloat list \<Rightarrow> pyfloat" where
  "last_valid xs = first_valid (rev xs)"

fun max_valid :: "pyfloat list \<Rightarrow> pyfloat" where
  "max_valid [] = None"
| "max_valid (None # xs) = max_valid xs"
| "max_valid (Some x # xs) = (case max_valid xs of None \<Rightarrow> Some x | Some y \<Rightarrow> Some (max x y))"

fun min_valid :: "pyfloat list \<Rightarrow> pyfloat" where
  "min_valid [] = None"
| "min_valid (None # xs) = min_valid xs"
| "min_valid (Some x # xs) = (case min_valid xs of None \<Rightarrow> Some x | Some y \<Rightarrow> Some (min x y))"

fun sum_valid :: "pyfloat list \<Rightarrow> real" where
  "sum_valid [] = 0"
| "sum_valid (None # xs) = sum_valid xs"
| "sum_valid (Some x # xs) = x + sum_valid xs"

text \<open>
  For stating what a bin holds: the values of a column that are not NaN, in order
  (\<^verbatim>\<open>Series.dropna()\<close>), and the input rows of a bin in timestamp order.
\<close>

fun valid_values :: "pyfloat list \<Rightarrow> real list" where
  "valid_values [] = []"
| "valid_values (None # xs) = valid_values xs"
| "valid_values (Some x # xs) = x # valid_values xs"

definition in_bin :: "nat \<Rightarrow> int \<Rightarrow> (int, 'v) ohlcv list \<Rightarrow> (int, 'v) ohlcv list" where
  "in_bin m b rows = filter (\<lambda>r. bin_of m (timestamp r) = b) rows"

text \<open>
  The rows of a frame that have a timestamp, indexed by it: the bins of \<^verbatim>\<open>resample\<close>
  leave out the rows whose index is NaT.
\<close>

definition dated_row :: "(stamp, 'v) ohlcv \<Rightarrow> (int, 'v) ohlcv option" where
  "dated_row r =
     (case timestamp r of
        None \<Rightarrow> None
      | Some t \<Rightarrow> Some \<lparr>timestamp = t, popen = popen r, high = high r, low = low r,
                        pclose = pclose r, volume = volume r\<rparr>)"

definition dated_rows :: "(stamp, 'v) ohlcv list \<Rightarrow> (int, 'v) ohlcv list" where
  "dated_rows df = List.map_filter dated_row df"

definition undated :: "(int, 'v) ohlcv \<Rightarrow> (stamp, 'v) ohlcv" where
  "undated r = \<lparr>timestamp = Some (timestamp r), popen = popen r, high = high r, low = low r,
                 pclose = pclose r, volume = volume r\<rparr>"

definition bucket :: "nat \<Rightarrow> int \<Rightarrow> raw_frame \<Rightarrow> dated_frame" where
  "bucket m b df = in_bin m b (sort_key timestamp (dated_rows df))"

definition agg_bin :: "nat \<Rightarrow> int \<Rightarrow> dated_frame \<Rightarrow> (int, pyfloat) ohlcv" where
  "agg_bin m b rows =
     (let g = in_bin m b rows in
      \<lparr>timestamp = b * bin_width m,
       popen = first_valid (map popen g), high = max_valid (map high g),
       low = min_valid (map low g), pclose = last_valid (map pclose g),
       volume = Some (sum_valid (map volume g))\<rparr>)"

text \<open>
  \<^verbatim>\<open>resample(...)\<close> of the five columns: pandas orders the rows by timestamp (a stable
  sort) and produces one row for every bin from the first row's to the last row's, the
  empty bins included.
\<close>

definition resample_ohlcv :: "nat \<Rightarrow> dated_frame \<Rightarrow> dated_frame" where
  "resample_ohlcv m df =
     (let rows = sort_key timestamp df in
      if rows = [] then []
      else map (\<lambda>b. agg_bin m b rows)
             [bin_of m (timestamp (hd rows)) .. bin_of m (timestamp (last rows))])"

definition notna :: "('t, pyfloat) ohlcv \<Rightarrow> bool" where
  "notna r \<longleftrightarrow> popen r \<noteq> None \<and> high r \<noteq> None \<and> low r \<noteq> None \<and> pclose r \<noteq> None \<and>
               volume r \<noteq> None"

definition dropna :: "('t, pyfloat) ohlcv list \<Rightarrow> ('t, pyfloat) ohlcv list" where
  "dropna df = filter notna df"

text \<open>
  \<^verbatim>\<open>aggregate_from_1m\<close>. \<^verbatim>\<open>resample\<close> needs a datetime index with an instant in it.
  The empty frame comes from a CSV file without data rows, whose timestamp column is not
  of a datetime type: \<^verbatim>\<open>resample\<close> raises TypeError on it. For a frame whose timestamps
  are all NaT the range of bins cannot be built, and \<^verbatim>\<open>resample\<close> raises as well.
\<close>

definition aggregate_from_1m :: "raw_frame \<Rightarrow> string \<Rightarrow> exn + raw_frame" where
  "aggregate_from_1m df_1m target_tf =
     (if target_tf = ''1m'' then Inr df_1m
      else case offset_map target_tf of
             None \<Rightarrow> Inl (''unsupported tf for aggregation: '' @ target_tf)
           | Some m \<Rightarrow>
               if df_1m = [] then Inl ''Only valid with DatetimeIndex''
               else if dated_rows df_1m = [] then Inl ''Neither start nor end can be NaT''
               else Inr (map undated (dropna (resample_ohlcv m (dated_rows df_1m)))))"

section \<open>The feature engine\<close>

text \<open>
  \<^verbatim>\<open>compute_features\<close> is only called on frames that \<^verbatim>\<open>batch_predict\<close> has cleaned, so
  its input is a \<open>frame\<close>. The quotient of \<^verbatim>\<open>pct_change\<close> is the one place where a
  division by zero reaches a column, so \<open>ret_1\<close> has its own value type with the
  infinities: \<^verbatim>\<open>dropna\<close> removes NaN and keeps them. The timestamp is a column of the
  feature frame too: \<^verbatim>\<open>df.dropna()\<close> removes the rows whose timestamp is NaT.
\<close>

datatype xfloat = XNaN | XNegInf | XPosInf | XFin real

record 'v features =
  candle :: "(stamp, real) ohlcv"
  ret_1 :: xfloat
  ema8 :: 'v
  ema21 :: 'v
  ema50 :: 'v
  rsi14 :: 'v
  atr14 :: 'v
  std5 :: 'v
  mom5 :: 'v

text \<open>Column operations of pandas, on a column given as the list of its cells.\<close>

definition float_div :: "real \<Rightarrow> real \<Rightarrow> xfloat" where
  "float_div a b =
     (if b = 0 then (if a = 0 then XNaN else if a > 0 then XPosInf else XNegInf)
      else XFin (a / b))"

fun xsub1 :: "xfloat \<Rightarrow> xfloat" where
  "xsub1 (XFin x) = XFin (x - 1)"
| "xsub1 v = v"

fun pct_change :: "real list \<Rightarrow> xfloat list" where
  "pct_change [] = []"
| "pct_change (c # cs) = XNaN # map (\<lambda>(prev, cur). xsub1 (float_div cur prev)) (zip (c # cs) cs)"

fun diff :: "real list \<Rightarrow> pyfloat list" where
  "diff [] = []"
| "diff (c # cs) = None # map (\<lambda>(prev, cur). Some (cur - prev)) (zip (c # cs) cs)"

text \<open>\<^verbatim>\<open>shift(k)\<close>: the column moved down by \<open>k\<close> rows, NaN in the first \<open>k\<close> cells.\<close>

definition shift :: "nat \<Rightarrow> real list \<Rightarrow> pyfloat list" where
  "shift k xs = take (length xs) (replicate k None @ map Some xs)"

definition clip_lower0 :: "pyfloat list \<Rightarrow> pyfloat list" where
  "clip_lower0 xs = map (map_option (\<lambda>x. if x < 0 then 0 else x)) xs"

definition clip_upper0 :: "pyfloat list \<Rightarrow> pyfloat list" where
  "clip_upper0 xs = map (map_option (\<lambda>x. if x > 0 then 0 else x)) xs"

text \<open>
  \<^verbatim>\<open>rolling(w)\<close>: the window of row \<open>i\<close> is the \<open>w\<close> cells ending at \<open>i\<close>; the result is
  NaN while fewer than \<open>w\<close> rows exist or when the window holds a NaN.
\<close>

definition window :: "nat \<Rightarrow> nat \<Rightarrow> 'a list \<Rightarrow> 'a list" where
  "window w i xs = take w (drop (Suc i - w) xs)"

definition rolling_mean :: "nat \<Rightarrow> pyfloat list \<Rightarrow> pyfloat list" where
  "rolling_mean w xs =
     map (\<lambda>i. if Suc i < w then None
              else case those (window w i xs) of
                     None \<Rightarrow> None
                   | Some vs \<Rightarrow> Some (sum_list vs / real w))
         [0 ..< length xs]"

fun xfinite :: "xfloat \<Rightarrow> real option" where
  "xfinite (XFin x) = Some x"
| "xfinite v = None"

definition mean :: "real list \<Rightarrow> real" where
  "mean xs = sum_list xs / real (length xs)"

text \<open>The sample standard deviation (\<^verbatim>\<open>ddof=1\<close>) of \<^verbatim>\<open>rolling(w).std()\<close>; an infinite
  cell counts as NaN there.\<close>

definition sample_std :: "real list \<Rightarrow> real" where
  "sample_std xs = sqrt (sum_list (map (\<lambda>x. (x - mean xs)\<^sup>2) xs) / real (length xs - 1))"

definition rolling_std :: "nat \<Rightarrow> xfloat list \<Rightarrow> pyfloat list" where
  "rolling_std w xs =
     map (\<lambda>i. if Suc i < w then None
              else case those (map xfinite (window w i xs)) of
                     None \<Rightarrow> None
                   | Some vs \<Rightarrow> Some (sample_std vs))
         [0 ..< length xs]"

definition fillna0 :: "pyfloat list \<Rightarrow> pyfloat list" where
  "fillna0 xs = map (\<lambda>x. case x of None \<Rightarrow> Some 0 | Some v \<Rightarrow> Some v) xs"

definition mom :: "nat \<Rightarrow> real list \<Rightarrow> pyfloat list" where
  "mom k cs = map (\<lambda>(c, p). map_option (\<lambda>p'. c - p') p) (zip cs (shift k cs))"

text \<open>
  \<^verbatim>\<open>ewm(span=n, adjust=False).mean()\<close>: the first cell is the first value, and each later
  cell is \<open>(1 - a) * previous + a * value\<close> with \<open>a = 2 / (n + 1)\<close>.
\<close>

fun ewm_from :: "real \<Rightarrow> real \<Rightarrow> real list \<Rightarrow> real list" where
  "ewm_from a prev [] = []"
| "ewm_from a prev (x # xs) = (let y = (1 - a) * prev + a * x in y # ewm_from a y xs)"

fun ewm_mean :: "nat \<Rightarrow> real list \<Rightarrow> real list" where
  "ewm_mean n [] = []"
| "ewm_mean n (x # xs) = x # ewm_from (2 / (real n + 1)) x xs"

text \<open>
  Python's \<^verbatim>\<open>max(a, b)\<close> and \<^verbatim>\<open>min(a, b)\<close> return \<open>a\<close> unless \<open>b\<close> compares greater
  (smaller); every comparison with NaN is false, so a NaN second argument gives \<open>a\<close>.
  \<^verbatim>\<open>Series.combine\<close> applies them cell by cell.
\<close>

fun py_max :: "real \<Rightarrow> pyfloat \<Rightarrow> real" where
  "py_max a None = a"
| "py_max a (Some b) = (if b > a then b else a)"

fun py_min :: "real \<Rightarrow> pyfloat \<Rightarrow> real" where
  "py_min a None = a"
| "py_min a (Some b) = (if b < a then b else a)"

definition true_range :: "real list \<Rightarrow> real list \<Rightarrow> real list \<Rightarrow> real list" where
  "true_range hs ls cs =
     map (\<lambda>(h, l, p). py_max h p - py_min l p) (zip hs (zip ls (shift 1 cs)))"

text \<open>
  The relative strength of the fallback path: \<^verbatim>\<open>(up / down)\<close> with the infinities
  replaced by NaN and NaN filled with 0. So it is 0 where a rolling mean is still NaN and
  where the average loss is 0 (the quotient is infinite or 0/0 there).
\<close>

definition rel_strength :: "pyfloat \<Rightarrow> pyfloat \<Rightarrow> real" where
  "rel_strength up down =
     (case (up, down) of
        (Some u, Some d) \<Rightarrow> (if d = 0 then 0 else u / d)
      | _ \<Rightarrow> 0)"

definition fallback_rsi :: "real list \<Rightarrow> pyfloat list" where
  "fallback_rsi cs =
     (let delta = diff cs;
          up = rolling_mean 14 (clip_lower0 delta);
          down = map (map_option uminus) (rolling_mean 14 (clip_upper0 delta))
      in map (\<lambda>(u, d). Some (100 - 100 / (1 + rel_strength u d))) (zip up down))"

definition fallback_atr :: "real list \<Rightarrow> real list \<Rightarrow> real list \<Rightarrow> pyfloat list" where
  "fallback_atr hs ls cs = rolling_mean 14 (map Some (true_range hs ls cs))"

text \<open>A frame with the feature columns given as lists, cell \<open>i\<close> of each in row \<open>i\<close>.\<close>

definition with_columns ::
  "frame \<Rightarrow> xfloat list \<Rightarrow> 'v list \<Rightarrow> 'v list \<Rightarrow> 'v list \<Rightarrow> 'v list \<Rightarrow> 'v list \<Rightarrow> 'v list \<Rightarrow>
   'v list \<Rightarrow> 'v features list" where
  "with_columns df ret e8 e21 e50 rsi atr sd mo =
     map (\<lambda>i. \<lparr>candle = df ! i, ret_1 = ret ! i, ema8 = e8 ! i, ema21 = e21 ! i,
                ema50 = e50 ! i, rsi14 = rsi ! i, atr14 = atr ! i, std5 = sd ! i,
                mom5 = mo ! i\<rparr>)
         [0 ..< length df]"

text \<open>
  \<^verbatim>\<open>df.dropna()\<close> on the feature frame: a row with a NaN in any column, or with the
  timestamp NaT, goes.
\<close>

definition dropna_row :: "pyfloat features \<Rightarrow> real features option" where
  "dropna_row r =
     (case (ema8 r, ema21 r, ema50 r, rsi14 r, atr14 r, std5 r, mom5 r) of
        (Some e8, Some e21, Some e50, Some rsi, Some atr, Some sd, Some mo) \<Rightarrow>
          (if ret_1 r = XNaN \<or> timestamp (candle r) = None then None
           else Some \<lparr>candle = candle r, ret_1 = ret_1 r, ema8 = e8, ema21 = e21, ema50 = e50,
                       rsi14 = rsi, atr14 = atr, std5 = sd, mom5 = mo\<rparr>)
      | _ \<Rightarrow> None)"

definition dropna_features :: "pyfloat features list \<Rightarrow> real features list" where
  "dropna_features rows = List.map_filter dropna_row rows"

text \<open>
  The indicator library \<^verbatim>\<open>pandas_ta\<close> is not part of the repository: its three functions
  are parameters. Each returns a column or raises (\<open>Inl\<close>); \<open>None\<close> for the library
  stands for the failed import (\<^verbatim>\<open>ta = None\<close>), where every call raises. A returned
  column is aligned to the frame's index: missing cells are NaN.
\<close>

record ta_lib =
  ta_ema :: "real list \<Rightarrow> nat \<Rightarrow> exn + pyfloat list"
  ta_rsi :: "real list \<Rightarrow> nat \<Rightarrow> exn + pyfloat list"
  ta_atr :: "real list \<Rightarrow> real list \<Rightarrow> real list \<Rightarrow> nat \<Rightarrow> exn + pyfloat list"

definition align :: "nat \<Rightarrow> pyfloat list \<Rightarrow> pyfloat list" where
  "align n col = take n (col @ replicate n None)"

definition primary_features :: "ta_lib option \<Rightarrow> frame \<Rightarrow> exn + real features list" where
  "primary_features ta df =
     (case ta of
        None \<Rightarrow> Inl ''NoneType object has no attribute ema''
      | Some lib \<Rightarrow>
          (let c = map pclose df; h = map high df; l = map low df; n = length df in
           case ta_ema lib c 8 of Inl e \<Rightarrow> Inl e | Inr e8 \<Rightarrow>
           case ta_ema lib c 21 of Inl e \<Rightarrow> Inl e | Inr e21 \<Rightarrow>
           case ta_ema lib c 50 of Inl e \<Rightarrow> Inl e | Inr e50 \<Rightarrow>
           case ta_rsi lib c 14 of Inl e \<Rightarrow> Inl e | Inr rsi \<Rightarrow>
           case ta_atr lib h l c 14 of Inl e \<Rightarrow> Inl e | Inr atr \<Rightarrow>
             Inr (dropna_features
                    (with_columns df (pct_change c) (align n e8) (align n e21) (align n e50)
                       (align n rsi) (align n atr) (rolling_std 5 (pct_change c)) (mom 5 c)))))"

text \<open>
  The fallback path. \<open>ret_1\<close> was assigned before the library was first called, so the
  column is there; the path overwrites every other feature column.
\<close>

definition fallback_frame :: "frame \<Rightarrow> pyfloat features list" where
  "fallback_frame df =
     (let c = map pclose df; h = map high df; l = map low df in
      with_columns df (pct_change c)
        (map Some (ewm_mean 8 c)) (map Some (ewm_mean 21 c)) (map Some (ewm_mean 50 c))
        (fallback_rsi c) (fallback_atr h l c)
        (fillna0 (rolling_std 5 (pct_change c))) (mom 5 c))"

definition fallback_features :: "frame \<Rightarrow> real features list" where
  "fallback_features df = dropna_features (fallback_frame df)"

definition compute_features :: "ta_lib option \<Rightarrow> frame \<Rightarrow> real features list" where
  "compute_features ta df =
     (if length df < 3 then []
      else case primary_features ta df of
             Inr feat \<Rightarrow> feat
           | Inl e \<Rightarrow> fallback_features df)"

section \<open>The signal engine\<close>

record signal =
  label :: string
  confidence :: real
  entry :: real
  sl :: real
  tp :: real

text \<open>
  \<^verbatim>\<open>np.std(df["close"].diff().dropna())\<close>: the population standard deviation of the
  close-to-close differences.
\<close>

definition np_std :: "real list \<Rightarrow> real" where
  "np_std xs = sqrt (sum_list (map (\<lambda>x. (x - mean xs)\<^sup>2) xs) / real (length xs))"

definition close_diffs :: "frame \<Rightarrow> real list" where
  "close_diffs df = valid_values (diff (map pclose df))"

text \<open>
  The volatility proxy. The last feature row comes out of \<^verbatim>\<open>dropna\<close>, so its
  \<open>atr14\<close> is a number and \<^verbatim>\<open>np.isnan(atr)\<close> is false: the floor applies when it is 0.
\<close>

definition atr_or_floor :: "real \<Rightarrow> frame \<Rightarrow> real" where
  "atr_or_floor atr df =
     (if atr = 0 then py_max (np_std (close_diffs df) * 2) (Some (1 / 10 ^ 8)) else atr)"


definition stop_loss :: "(real \<Rightarrow> real) \<Rightarrow> string \<Rightarrow> real \<Rightarrow> real \<Rightarrow> real" where
  "stop_loss fl lbl last_close atr =
     (if lbl = ''long'' then fl (last_close - fl (fl 1.2 * atr))
      else if lbl = ''short'' then fl (last_close + fl (fl 1.2 * atr)) else 0)"

definition take_profit :: "(real \<Rightarrow> real) \<Rightarrow> string \<Rightarrow> real \<Rightarrow> real \<Rightarrow> real" where
  "take_profit fl lbl last_close atr =
     (if lbl = ''long'' then fl (last_close + fl (fl 2.4 * atr))
      else if lbl = ''short'' then fl (last_close - fl (fl 2.4 * atr)) else 0)"

definition heuristic_label :: "real features \<Rightarrow> string" where
  "heuristic_label r =
     (if ema8 r > ema21 r \<and> ema21 r > ema50 r \<and> rsi14 r > 50 then ''long''
      else if ema8 r < ema21 r \<and> ema21 r < ema50 r \<and> rsi14 r < 50 then ''short''
      else ''none'')"

definition heuristic_confidence :: "string \<Rightarrow> real features \<Rightarrow> real" where
  "heuristic_confidence lbl r =
     (if lbl \<noteq> ''none'' then
        (let sep = \<bar>ema8 r - ema50 r\<bar> / (if ema50 r \<noteq> 0 then ema50 r else 1)
         in min 0.95 (0.55 + sep * 5 + (\<bar>rsi14 r - 50\<bar> / 50) * 0.3))
      else 0.5)"

definition heuristic_signal_from_df ::
  "(real \<Rightarrow> real) \<Rightarrow> ta_lib option \<Rightarrow> frame \<Rightarrow> signal" where
  "heuristic_signal_from_df fl ta df =
     (if df = [] then \<lparr>label = ''none'', confidence = 0, entry = 0, sl = 0, tp = 0\<rparr>
      else
        (let feat = compute_features ta df in
         if feat = [] then
           \<lparr>label = ''none'', confidence = 0, entry = pclose (last df), sl = 0, tp = 0\<rparr>
         else
           (let lastr = last feat;
                last_close = pclose (last df);
                atr = atr_or_floor (atr14 lastr) df;
                lbl = heuristic_label lastr
            in \<lparr>label = lbl, confidence = heuristic_confidence lbl lastr, entry = last_close,
                sl = stop_loss fl lbl last_close atr,
                tp = take_profit fl lbl last_close atr\<rparr>)))"

subsection \<open>The model strategy\<close>

text \<open>
  The classifier is an external object: \<open>predict_proba\<close> maps the feature vector to the
  probabilities of the first row (\<open>Inl\<close>: the call raised), \<open>model_classes\<close> (\<^verbatim>\<open>classes_\<close>) are its class
  labels, integers or strings. The metadata gives the feature columns (\<open>[]\<close> when the key
  is missing) and, when present, the label map.
\<close>

datatype cls = IntClass int | StrClass string

record model =
  predict_proba :: "xfloat list \<Rightarrow> exn + real list"
  model_classes :: "cls list"

record meta =
  meta_features :: "string list"
  meta_label_map :: "(string \<rightharpoonup> string) option"

text \<open>\<^verbatim>\<open>str\<close> of an integer.\<close>

fun str_nat :: "nat \<Rightarrow> string" where
  "str_nat n =
     (if n < 10 then [char_of (48 + n)] else str_nat (n div 10) @ [char_of (48 + n mod 10)])"

definition str_int :: "int \<Rightarrow> string" where
  "str_int i = (if i < 0 then CHR ''-'' # str_nat (nat (- i)) else str_nat (nat i))"

text \<open>
  A cell of the feature frame by column name; \<open>None\<close> for a name that is not a column,
  where the selection \<^verbatim>\<open>featdf.iloc[[-1]][feat_cols]\<close> raises \<^verbatim>\<open>KeyError\<close>. The rows
  have no NaN left, so \<^verbatim>\<open>fillna(0)\<close> changes nothing.
\<close>

definition column_value :: "string \<Rightarrow> real features \<Rightarrow> xfloat option" where
  "column_value col r =
     (if col = ''timestamp'' then Some (XFin (real_of_int (stamp_key (candle r))))
      else if col = ''open'' then Some (XFin (popen (candle r)))
      else if col = ''high'' then Some (XFin (high (candle r)))
      else if col = ''low'' then Some (XFin (low (candle r)))
      else if col = ''close'' then Some (XFin (pclose (candle r)))
      else if col = ''volume'' then Some (XFin (volume (candle r)))
      else if col = ''ret_1'' then Some (ret_1 r)
      else if col = ''ema8'' then Some (XFin (ema8 r))
      else if col = ''ema21'' then Some (XFin (ema21 r))
      else if col = ''ema50'' then Some (XFin (ema50 r))
      else if col = ''rsi14'' then Some (XFin (rsi14 r))
      else if col = ''atr14'' then Some (XFin (atr14 r))
      else if col = ''std5'' then Some (XFin (std5 r))
      else if col = ''mom5'' then Some (XFin (mom5 r))
      else None)"

text \<open>\<^verbatim>\<open>np.argmax\<close>: the first index of the largest value.\<close>

fun argmax_from :: "nat \<Rightarrow> real \<Rightarrow> nat \<Rightarrow> real list \<Rightarrow> nat" where
  "argmax_from best bv i [] = best"
| "argmax_from best bv i (x # xs) =
     (if x > bv then argmax_from i x (Suc i) xs else argmax_from best bv (Suc i) xs)"

definition argmax :: "real list \<Rightarrow> nat" where
  "argmax xs = (case xs of [] \<Rightarrow> 0 | x # rest \<Rightarrow> argmax_from 0 x 1 rest)"

definition default_label_map :: "string \<rightharpoonup> string" where
  "default_label_map = [''0'' \<mapsto> ''none'', ''1'' \<mapsto> ''long'', ''2'' \<mapsto> ''short'']"

definition class_label :: "meta \<Rightarrow> cls \<Rightarrow> string" where
  "class_label mt c =
     (let label_map = (case meta_label_map mt of None \<Rightarrow> default_label_map | Some m \<Rightarrow> m);
          key = (case c of IntClass i \<Rightarrow> str_int i | StrClass s \<Rightarrow> s)
      in case label_map key of None \<Rightarrow> ''none'' | Some l \<Rightarrow> l)"

text \<open>
  \<^verbatim>\<open>model_predict_from_df\<close>. Only the call of \<^verbatim>\<open>predict_proba\<close> stands inside the
  \<^verbatim>\<open>try\<close>; the selection of the feature columns before it and the indexing after it
  raise to the caller.
\<close>

definition model_predict_from_df ::
  "(real \<Rightarrow> real) \<Rightarrow> ta_lib option \<Rightarrow> model option \<Rightarrow> meta option \<Rightarrow> frame \<Rightarrow>
   exn + signal" where
  "model_predict_from_df fl ta mdl mt df =
     (case (mdl, mt) of
        (Some m, Some mta) \<Rightarrow>
          (let featdf = compute_features ta df in
           if featdf = [] then Inr (heuristic_signal_from_df fl ta df)
           else if meta_features mta = [] then Inr (heuristic_signal_from_df fl ta df)
           else
             case those (map (\<lambda>col. column_value col (last featdf)) (meta_features mta)) of
               None \<Rightarrow> Inl ''KeyError: not in index''
             | Some X \<Rightarrow>
                 (case predict_proba m X of
                    Inl e \<Rightarrow> Inr (heuristic_signal_from_df fl ta df)
                  | Inr probs \<Rightarrow>
                      if probs = [] then Inl ''attempt to get argmax of an empty sequence''
                      else if length (model_classes m) \<le> argmax probs then
                        Inl ''index out of bounds''
                      else
                        (let idx = argmax probs;
                             lbl = class_label mta (model_classes m ! idx);
                             last_close = pclose (last df);
                             atr = atr_or_floor (atr14 (last featdf)) df
                         in Inr \<lparr>label = lbl, confidence = probs ! idx, entry = last_close,
                                 sl = stop_loss fl lbl last_close atr,
                                 tp = take_profit fl lbl last_close atr\<rparr>)))
      | _ \<Rightarrow> Inr (heuristic_signal_from_df fl ta df))"

section \<open>Strings\<close>

text \<open>
  The string operations the server uses, on ASCII text. \<^verbatim>\<open>str.replace\<close> is only called
  with a non-empty pattern.
\<close>

definition char_upper :: "char \<Rightarrow> char" where
  "char_upper c =
     (let n = (of_char c :: nat) in if 97 \<le> n \<and> n \<le> 122 then char_of (n - 32) else c)"

definition str_upper :: "string \<Rightarrow> string" where
  "str_upper s = map char_upper s"

definition is_space :: "char \<Rightarrow> bool" where
  "is_space c =
     (let n = (of_char c :: nat) in (9 \<le> n \<and> n \<le> 13) \<or> (28 \<le> n \<and> n \<le> 32))"

definition strip :: "string \<Rightarrow> string" where
  "strip s = rev (dropWhile is_space (rev (dropWhile is_space s)))"

definition startswith :: "string \<Rightarrow> string \<Rightarrow> bool" where
  "startswith s p = prefix p s"

fun contains :: "string \<Rightarrow> string \<Rightarrow> bool" where
  "contains [] sub = (sub = [])"
| "contains (c # cs) sub = (prefix sub (c # cs) \<or> contains cs sub)"

function str_replace :: "string \<Rightarrow> string \<Rightarrow> string \<Rightarrow> string" where
  "str_replace old new [] = []"
| "str_replace old new (c # cs) =
     (if old \<noteq> [] \<and> prefix old (c # cs)
      then new @ str_replace old new (drop (length old) (c # cs))
      else c # str_replace old new cs)"
  by pat_completeness auto
termination
  by (relation "measure (\<lambda>(old, new, s). length s)") auto

text \<open>\<^verbatim>\<open>s.split(":", 1)[1] if ":" in s else s\<close>\<close>

definition after_colon :: "string \<Rightarrow> string" where
  "after_colon s =
     (if CHR '':'' \<in> set s then tl (dropWhile (\<lambda>c. c \<noteq> CHR '':'') s) else s)"

definition basename :: "string \<Rightarrow> string" where
  "basename path = rev (takeWhile (\<lambda>c. c \<noteq> CHR ''/'') (rev path))"

section \<open>Configuration, the outside world and the server state\<close>

definition DEFAULT_LIMIT :: int where
  "DEFAULT_LIMIT = 300"

definition SUPPORTED_TFS :: "string list" where
  "SUPPORTED_TFS = [''1m'', ''5m'', ''15m'', ''1h'', ''4h'']"

text \<open>
  The module-level globals, and with them the arithmetic of the interpreter
  (\<open>float_round\<close>, the \<open>fl\<close> of \<open>stop_loss\<close>). A credential is unset when the
  environment variable is missing or empty (\<^verbatim>\<open>if not TOKEN\<close>).
\<close>

record config =
  OANDA_TOKEN :: "string option"
  ALPHA_VANTAGE_KEY :: "string option"
  MODEL :: "model option"
  META :: "meta option"
  ta_module :: "ta_lib option"
  float_round :: "real \<Rightarrow> real"

definition unset :: "string option \<Rightarrow> bool" where
  "unset v \<longleftrightarrow> v = None \<or> v = Some []"

text \<open>
  An HTTP exchange either raises in the client (timeout, connection error) or gives a
  status code and a body; decoding the body (\<^verbatim>\<open>r.json()\<close> and, for Binance, building
  the typed frame from it) raises (\<open>Inl\<close>) or gives the payload.
\<close>

datatype 'a http_result = HttpError exn | HttpResponse nat "exn + 'a"

text \<open>\<^verbatim>\<open>raise_for_status\<close> raises unless the status is a 2xx.\<close>

definition is_success :: "nat \<Rightarrow> bool" where
  "is_success status \<longleftrightarrow> 200 \<le> status \<and> status < 300"

text \<open>
  One entry of OANDA's \<^verbatim>\<open>candles\<close> list as the adapter reads it: the time, the four
  prices after \<^verbatim>\<open>safe_float\<close> (NaN for a missing one), and the volume (\<open>None\<close>: a value
  on which \<^verbatim>\<open>int\<close> raises).
\<close>

record oanda_candle =
  oc_time :: "string option"
  oc_o :: pyfloat
  oc_h :: pyfloat
  oc_l :: pyfloat
  oc_c :: pyfloat
  oc_volume :: "int option"

text \<open>
  An Alpha Vantage answer, as far as the adapter looks at it. The code that inspects the
  decoded body stands outside the adapter's \<^verbatim>\<open>try\<close>, so the shapes on which it raises
  are part of the model. A body that is not a JSON object raises, by the membership
  test, by \<^verbatim>\<open>js.get\<close> or by \<^verbatim>\<open>js.keys()\<close>: \<open>AlphaOther e\<close>, with the exception. Of an
  object:
  \<^item> \<open>aj_note\<close> is the value under \<^verbatim>\<open>Note\<close> (the rate-limit marker): \<open>None\<close> when the
    key is missing, \<open>Some None\<close> for a value that \<^verbatim>\<open>[:200]\<close> cannot slice (the log call
    raises), \<open>Some (Some s)\<close> for a text;
  \<^item> \<open>aj_error_message\<close> tells whether the key \<^verbatim>\<open>Error Message\<close> is there;
  \<^item> \<open>aj_time_series\<close> is the value under the first key that starts with
    \<^verbatim>\<open>Time Series\<close>: \<open>None\<close> when there is no such key, \<open>Some None\<close> for a value that
    is not an object (\<^verbatim>\<open>ts.items()\<close> raises), else its entries, each a timestamp string
    and its four prices (\<open>None\<close>: \<^verbatim>\<open>float\<close> or \<^verbatim>\<open>obj.get\<close> raised, inside the
    loop's \<^verbatim>\<open>try\<close>).
\<close>

type_synonym alpha_entry = "string \<times> (pyfloat \<times> pyfloat \<times> pyfloat \<times> pyfloat) option"

record alpha_json =
  aj_note :: "string option option"
  aj_error_message :: bool
  aj_time_series :: "alpha_entry list option option"

datatype alpha_body = AlphaOther exn | AlphaObject alpha_json

text \<open>
  Everything outside the process. \<open>to_datetime\<close> is \<^verbatim>\<open>pd.to_datetime\<close> on one string.
  A frame that a provider or a file gives may hold NaT timestamps and NaN prices.
  \<open>read_csv\<close> gives the frame of a file whose timestamp column reads as dates (NaT for
  an empty cell), and the empty frame for a file without data rows.
  The server counts its interactions with the world (\<open>ticks\<close>): the clock and the
  providers answer by the tick, so two readings or two requests may differ.
\<close>

record world =
  to_datetime :: "string \<Rightarrow> parse_result"
  clock :: "nat \<Rightarrow> instant"
  binance_get :: "nat \<Rightarrow> string \<Rightarrow> string \<Rightarrow> int \<Rightarrow> raw_frame http_result"
  oanda_get :: "nat \<Rightarrow> string \<Rightarrow> string \<Rightarrow> int \<Rightarrow> oanda_candle list http_result"
  alpha_get :: "nat \<Rightarrow> string \<Rightarrow> string \<Rightarrow> string \<Rightarrow> alpha_body http_result"
  path_exists :: "string \<Rightarrow> bool"
  read_csv :: "string \<Rightarrow> exn + raw_frame"

record server =
  cache :: "raw_frame cache"
  ticks :: nat

definition tick :: "server \<Rightarrow> server" where
  "tick s = s\<lparr>ticks := Suc (ticks s)\<rparr>"

definition cache_get_io :: "world \<Rightarrow> string \<Rightarrow> server \<Rightarrow> raw_frame option \<times> server" where
  "cache_get_io w key s =
     (let (r, c) = cache_get (clock w (ticks s)) key (cache s)
      in (r, tick (s\<lparr>cache := c\<rparr>)))"

definition cache_set_io :: "world \<Rightarrow> string \<Rightarrow> raw_frame \<Rightarrow> server \<Rightarrow> server" where
  "cache_set_io w key payload s =
     tick (s\<lparr>cache := cache_set (clock w (ticks s)) key payload (cache s)\<rparr>)"

section \<open>Source adapters\<close>

subsection \<open>Binance\<close>

text \<open>
  \<^verbatim>\<open>fetch_binance_klines\<close> has no handler of its own: a failed request, a status that
  \<^verbatim>\<open>raise_for_status\<close> rejects and a body that does not decode all raise to the caller.
  \<open>binance_outcome\<close> is what the adapter makes of the exchange.
\<close>

definition binance_outcome :: "raw_frame http_result \<Rightarrow> exn + raw_frame" where
  "binance_outcome r =
     (case r of
        HttpError e \<Rightarrow> Inl e
      | HttpResponse status body \<Rightarrow>
          if \<not> is_success status then Inl ''HTTPStatusError''
          else case body of Inl e \<Rightarrow> Inl e | Inr out \<Rightarrow> Inr out)"

definition fetch_binance_klines ::
  "world \<Rightarrow> string \<Rightarrow> string \<Rightarrow> int \<Rightarrow> server \<Rightarrow> (exn + raw_frame) \<times> server" where
  "fetch_binance_klines w symbol interval lmt s =
     (let cache_key = ''binance::'' @ symbol @ ''::'' @ interval @ ''::'' @ str_int lmt;
          (cached, s1) = cache_get_io w cache_key s
      in case cached of
           Some df \<Rightarrow> (Inr df, s1)
         | None \<Rightarrow>
             (case binance_outcome
                     (binance_get w (ticks s1) (str_replace ''BINANCE:'' [] symbol) interval lmt) of
                Inl e \<Rightarrow> (Inl e, tick s1)
              | Inr out \<Rightarrow> (Inr out, cache_set_io w cache_key out (tick s1))))"

subsection \<open>OANDA\<close>

definition oanda_granularity :: "string \<Rightarrow> string option" where
  "oanda_granularity tf =
     (if tf = ''1m'' then Some ''M1'' else if tf = ''5m'' then Some ''M5''
      else if tf = ''15m'' then Some ''M15'' else if tf = ''1h'' then Some ''H1''
      else if tf = ''4h'' then Some ''H4'' else None)"

definition oanda_instrument :: "string \<Rightarrow> string" where
  "oanda_instrument symbol =
     (let inst_raw = after_colon symbol;
          inst_clean = str_upper (str_replace ''/'' [] (str_replace ''-'' [] inst_raw))
      in if CHR ''_'' \<in> set inst_raw then str_upper inst_raw
         else if length inst_clean \<ge> 6 then take 3 inst_clean @ ''_'' @ drop 3 inst_clean
         else inst_clean)"

text \<open>
  The loop over the candles: an entry without a time is skipped; a volume or a time that
  does not convert raises, which the enclosing handler turns into "no data".
\<close>

fun oanda_rows :: "world \<Rightarrow> oanda_candle list \<Rightarrow> exn + raw_frame" where
  "oanda_rows w [] = Inr []"
| "oanda_rows w (c # cs) =
     (case oc_time c of
        None \<Rightarrow> oanda_rows w cs
      | Some t \<Rightarrow>
          if t = [] then oanda_rows w cs
          else case oc_volume c of
                 None \<Rightarrow> Inl ''invalid literal for int()''
               | Some vol \<Rightarrow>
                   (case to_datetime w t of
                      ParseError \<Rightarrow> Inl ''Unknown datetime string format''
                    | Parsed ts \<Rightarrow>
                        (case oanda_rows w cs of
                           Inl e \<Rightarrow> Inl e
                         | Inr rows \<Rightarrow>
                             Inr (\<lparr>timestamp = ts, popen = oc_o c, high = oc_h c, low = oc_l c,
                                   pclose = oc_c c, volume = Some (real_of_int vol)\<rparr> # rows))))"

text \<open>What the adapter makes of the exchange: every failure is "no data".\<close>

definition oanda_outcome :: "world \<Rightarrow> oanda_candle list http_result \<Rightarrow> raw_frame option" where
  "oanda_outcome w r =
     (case r of
        HttpError e \<Rightarrow> None
      | HttpResponse status body \<Rightarrow>
          if status \<noteq> 200 then None
          else case body of
                 Inl e \<Rightarrow> None
               | Inr cs \<Rightarrow>
                   (case oanda_rows w cs of
                      Inl e \<Rightarrow> None
                    | Inr rows \<Rightarrow> if rows = [] then None else Some (sort_values rows)))"

definition oanda_cache_key :: "string \<Rightarrow> string \<Rightarrow> int \<Rightarrow> string" where
  "oanda_cache_key inst g cnt = ''oanda::'' @ inst @ ''::'' @ g @ ''::'' @ str_int cnt"

definition fetch_oanda_candles ::
  "config \<Rightarrow> world \<Rightarrow> string \<Rightarrow> string \<Rightarrow> int \<Rightarrow> server \<Rightarrow> raw_frame option \<times> server" where
  "fetch_oanda_candles cfg w symbol granularity cnt s =
     (if unset (OANDA_TOKEN cfg) then (None, s)
      else case oanda_granularity granularity of
             None \<Rightarrow> (None, s)
           | Some g \<Rightarrow>
               (let inst = oanda_instrument symbol;
                    (cached, s1) = cache_get_io w (oanda_cache_key inst g cnt) s
                in case cached of
                     Some df \<Rightarrow> (Some df, s1)
                   | None \<Rightarrow>
                       (case oanda_outcome w (oanda_get w (ticks s1) inst g cnt) of
                          None \<Rightarrow> (None, tick s1)
                        | Some df \<Rightarrow>
                            (Some df,
                             cache_set_io w (oanda_cache_key inst g cnt) df (tick s1)))))"

subsection \<open>Alpha Vantage\<close>

definition ALPHA_INTERVAL_MAP :: "string \<Rightarrow> string option" where
  "ALPHA_INTERVAL_MAP tf =
     (if tf = ''1m'' then Some ''1min'' else if tf = ''5m'' then Some ''5min''
      else if tf = ''15m'' then Some ''15min'' else if tf = ''1h'' then Some ''60min''
      else None)"

text \<open>The loop over the series: an entry whose time or prices do not convert is skipped.\<close>

fun alpha_rows :: "world \<Rightarrow> alpha_entry list \<Rightarrow> raw_frame" where
  "alpha_rows w [] = []"
| "alpha_rows w ((ts_str, obj) # rest) =
     (case to_datetime w ts_str of
        ParseError \<Rightarrow> alpha_rows w rest
      | Parsed t \<Rightarrow>
          (case obj of
             None \<Rightarrow> alpha_rows w rest
           | Some (o', h, l, c) \<Rightarrow>
               \<lparr>timestamp = t, popen = o', high = h, low = l, pclose = c, volume = Some 0\<rparr>
                 # alpha_rows w rest))"

text \<open>\<^verbatim>\<open>df.tail(n)\<close>: the last \<open>n\<close> rows, or all but the first \<open>-n\<close> for a negative \<open>n\<close>.\<close>

definition tail_rows :: "int \<Rightarrow> 'a list \<Rightarrow> 'a list" where
  "tail_rows n df = (if n \<ge> 0 then drop (length df - nat n) df else drop (nat (- n)) df)"

text \<open>
  The frame from the collected rows. For \<^verbatim>\<open>4h\<close> the rows are resampled to 60 minutes and
  then to 4 hours, each time with \<^verbatim>\<open>dropna\<close>. The rows are not empty here; when none of
  them has a timestamp, the range of bins cannot be built and \<^verbatim>\<open>resample\<close> raises. The
  second \<^verbatim>\<open>resample\<close> may see an empty frame, whose index is datetime-typed, and gives
  the empty frame.
\<close>

definition alpha_frame :: "string \<Rightarrow> int \<Rightarrow> raw_frame \<Rightarrow> exn + raw_frame" where
  "alpha_frame interval lmt rows =
     (let df = sort_values rows in
      if interval = ''4h'' \<and> dated_rows df = [] then Inl ''Neither start nor end can be NaT''
      else
        (let df1 = (if interval = ''4h''
                    then map undated
                           (dropna (resample_ohlcv 240 (dropna (resample_ohlcv 60 (dated_rows df)))))
                    else df)
         in Inr (if int (length df1) > lmt then tail_rows lmt df1 else df1)))"

text \<open>
  What the adapter makes of the exchange. The request, \<^verbatim>\<open>raise_for_status\<close> and
  \<^verbatim>\<open>r.json()\<close> stand in a \<^verbatim>\<open>try\<close> whose handler returns \<^verbatim>\<open>None\<close>; what follows does
  not, and raises on a body of another shape.
\<close>

definition alpha_outcome ::
  "world \<Rightarrow> string \<Rightarrow> int \<Rightarrow> alpha_body http_result \<Rightarrow> exn + raw_frame option" where
  "alpha_outcome w interval lmt r =
     (case r of
        HttpError e \<Rightarrow> Inr None
      | HttpResponse status body \<Rightarrow>
          if \<not> is_success status then Inr None
          else case body of
                 Inl e \<Rightarrow> Inr None
               | Inr (AlphaOther e) \<Rightarrow> Inl e
               | Inr (AlphaObject js) \<Rightarrow>
                   (case aj_note js of
                      Some None \<Rightarrow> Inl ''object is not subscriptable''
                    | Some (Some note) \<Rightarrow> Inr None
                    | None \<Rightarrow>
                        if aj_error_message js then Inr None
                        else case aj_time_series js of
                               None \<Rightarrow> Inr None
                             | Some None \<Rightarrow> Inl ''object has no attribute items''
                             | Some (Some series) \<Rightarrow>
                                 if alpha_rows w series = [] then Inr None
                                 else case alpha_frame interval lmt (alpha_rows w series) of
                                        Inl e \<Rightarrow> Inl e
                                      | Inr df \<Rightarrow> Inr (Some df)))"

definition alpha_cache_key :: "string \<Rightarrow> string \<Rightarrow> string \<Rightarrow> int \<Rightarrow> string" where
  "alpha_cache_key from_sym to_sym av_interval lmt =
     ''av::'' @ from_sym @ ''_'' @ to_sym @ ''::'' @ av_interval @ ''::'' @ str_int lmt"

definition fetch_alpha_vantage_candles ::
  "config \<Rightarrow> world \<Rightarrow> string \<Rightarrow> string \<Rightarrow> int \<Rightarrow> server \<Rightarrow>
   (exn + raw_frame option) \<times> server" where
  "fetch_alpha_vantage_candles cfg w symbol interval lmt s =
     (if unset (ALPHA_VANTAGE_KEY cfg) then (Inr None, s)
      else
        (let inst = str_upper (str_replace ''_'' [] (after_colon symbol)) in
         if length inst < 6 then (Inr None, s)
         else if ALPHA_INTERVAL_MAP interval = None \<and> interval \<noteq> ''4h'' then (Inr None, s)
         else
           (let from_sym = take 3 inst; to_sym = drop 3 inst;
                av_interval = (case ALPHA_INTERVAL_MAP interval of
                                 None \<Rightarrow> ''60min'' | Some a \<Rightarrow> a);
                key = alpha_cache_key from_sym to_sym av_interval lmt;
                (cached, s1) = cache_get_io w key s
            in case cached of
                 Some df \<Rightarrow> (Inr (Some df), s1)
               | None \<Rightarrow>
                   (case alpha_outcome w interval lmt
                           (alpha_get w (ticks s1) from_sym to_sym av_interval) of
                      Inl e \<Rightarrow> (Inl e, tick s1)
                    | Inr None \<Rightarrow> (Inr None, tick s1)
                    | Inr (Some df) \<Rightarrow> (Inr (Some df), cache_set_io w key df (tick s1))))))"

section \<open>The orchestrator\<close>

record BatchRequest =
  req_symbol :: string
  req_timeframes :: "string list"
  req_candles :: "(string \<rightharpoonup> CandleWindow) option"
  req_limit :: "int option"

record Prediction = signal +
  timeframe :: string
  source :: string

definition to_prediction :: "signal \<Rightarrow> string \<Rightarrow> string \<Rightarrow> Prediction" where
  "to_prediction sg tf src =
     \<lparr>label = label sg, confidence = confidence sg, entry = entry sg, sl = sl sg, tp = tp sg,
      timeframe = tf, source = src\<rparr>"

definition no_data :: "string \<Rightarrow> Prediction" where
  "no_data tf =
     \<lparr>label = ''none'', confidence = 0, entry = 0, sl = 0, tp = 0, timeframe = tf,
      source = ''no-data''\<rparr>"

text \<open>The handler's Prediction: \<^verbatim>\<open>source=f"error:{str(e)[:120]}"\<close>.\<close>

definition error_prediction :: "string \<Rightarrow> exn \<Rightarrow> Prediction" where
  "error_prediction tf e =
     \<lparr>label = ''none'', confidence = 0, entry = 0, sl = 0, tp = 0, timeframe = tf,
      source = ''error:'' @ take 120 e\<rparr>"

definition is_binance :: "string \<Rightarrow> bool" where
  "is_binance symbol = startswith (str_upper symbol) ''BINANCE:''"

definition is_oanda :: "string \<Rightarrow> bool" where
  "is_oanda symbol = startswith (str_upper symbol) ''OANDA:''"

definition is_alpha_candidate :: "string \<Rightarrow> bool" where
  "is_alpha_candidate symbol \<longleftrightarrow>
     contains (str_upper symbol) ''XAU'' \<or> startswith (str_upper symbol) ''ALPHA:''"

definition local_csv_candidates :: "string \<Rightarrow> string list" where
  "local_csv_candidates symbol =
     (let sym = str_replace '':'' ''_'' symbol
      in [''historical_'' @ sym @ ''_1m.csv'', sym @ ''_1m.csv'',
          ''historical_'' @ sym @ ''.csv'', sym @ ''.csv''])"

text \<open>\<^verbatim>\<open>req.candles and tf in req.candles\<close>, and then \<^verbatim>\<open>req.candles[tf]\<close>.\<close>

definition client_window :: "BatchRequest \<Rightarrow> string \<Rightarrow> CandleWindow option" where
  "client_window req tf = (case req_candles req of None \<Rightarrow> None | Some m \<Rightarrow> m tf)"

text \<open>
  The first part of the loop body: the frame \<^verbatim>\<open>df\<close> (\<open>None\<close> as in the source) and the
  tag \<^verbatim>\<open>src\<close> (\<open>[]\<close> while it is \<^verbatim>\<open>None\<close>), or the exception that the step raised. The
  branch that finds no local file appends the "no data" Prediction and continues; it is
  \<open>(None, [])\<close> here, for which the validation that follows appends the same Prediction.
\<close>

definition resolve ::
  "config \<Rightarrow> world \<Rightarrow> BatchRequest \<Rightarrow> string \<Rightarrow> int \<Rightarrow> string \<Rightarrow> server \<Rightarrow>
   (exn + (raw_frame option \<times> string)) \<times> server" where
  "resolve cfg w req symbol lmt tf s =
     (case client_window req tf of
        Some cw \<Rightarrow>
          (case candles_to_df (to_datetime w) cw of
             Inl e \<Rightarrow> (Inl e, s)
           | Inr df \<Rightarrow> (Inr (Some (map to_raw df), ''client-candles''), s))
      | None \<Rightarrow>
          if is_binance symbol then
            (case fetch_binance_klines w symbol tf lmt s of
               (Inl e, s1) \<Rightarrow> (Inl e, s1)
             | (Inr df, s1) \<Rightarrow> (Inr (Some df, ''binance-rest''), s1))
          else if is_oanda symbol then
            (case fetch_oanda_candles cfg w symbol tf lmt s of
               (df, s1) \<Rightarrow> (Inr (df, if df \<noteq> None then ''oanda-rest'' else ''no-data''), s1))
          else if is_alpha_candidate symbol \<and> \<not> unset (ALPHA_VANTAGE_KEY cfg) then
            (case fetch_alpha_vantage_candles cfg w symbol tf lmt s of
               (Inl e, s1) \<Rightarrow> (Inl e, s1)
             | (Inr df, s1) \<Rightarrow>
                 (Inr (df, if df \<noteq> None then ''alpha-vantage'' else ''no-data''), s1))
          else
            (case List.find (path_exists w) (local_csv_candidates symbol) of
               None \<Rightarrow> (Inr (None, []), s)
             | Some found \<Rightarrow>
                 (case read_csv w found of
                    Inl e \<Rightarrow> (Inl e, s)
                  | Inr df1 \<Rightarrow>
                      if tf = ''1m'' then
                        (Inr (Some (sort_values df1), ''local-csv:'' @ basename found), s)
                      else
                        (case aggregate_from_1m (sort_values df1) tf of
                           Inl e \<Rightarrow> (Inl e, s)
                         | Inr df \<Rightarrow>
                             (Inr (Some df, ''local-csv:'' @ basename found), s)))))"

text \<open>
  The second part: validation, cleaning, the 50-row threshold and the prediction.
  \<^verbatim>\<open>src if src else "heuristic"\<close> and \<^verbatim>\<open>src or "heuristic"\<close> are \<open>src_or_heuristic\<close>.
\<close>

definition src_or_heuristic :: "string \<Rightarrow> string" where
  "src_or_heuristic src = (if src = [] then ''heuristic'' else src)"

definition predict_frame ::
  "config \<Rightarrow> string \<Rightarrow> raw_frame option \<Rightarrow> string \<Rightarrow> exn + Prediction" where
  "predict_frame cfg tf df src =
     (case df of
        None \<Rightarrow> Inr (no_data tf)
      | Some raw \<Rightarrow>
          if raw = [] then Inr (no_data tf)
          else
            (let cleaned = clean_rows raw in
             if length cleaned < 50 then
               Inr (to_prediction
                      (heuristic_signal_from_df (float_round cfg) (ta_module cfg) cleaned) tf
                      (src_or_heuristic src))
             else
               (case MODEL cfg of
                  None \<Rightarrow>
                    Inr (to_prediction
                      (heuristic_signal_from_df (float_round cfg) (ta_module cfg) cleaned) tf
                           (src_or_heuristic src))
                | Some m \<Rightarrow>
                    (case model_predict_from_df (float_round cfg) (ta_module cfg) (MODEL cfg)
                            (META cfg) cleaned of
                       Inl e \<Rightarrow> Inl e
                     | Inr pred \<Rightarrow> Inr (to_prediction pred tf ''model'')))))"

text \<open>The body of the \<^verbatim>\<open>try\<close>, for one timeframe.\<close>

definition process_tf ::
  "config \<Rightarrow> world \<Rightarrow> BatchRequest \<Rightarrow> string \<Rightarrow> int \<Rightarrow> string \<Rightarrow> server \<Rightarrow>
   (exn + Prediction) \<times> server" where
  "process_tf cfg w req symbol lmt tf s =
     (case resolve cfg w req symbol lmt tf s of
        (Inl e, s1) \<Rightarrow> (Inl e, s1)
      | (Inr (df, src), s1) \<Rightarrow> (predict_frame cfg tf df src, s1))"

text \<open>The \<^verbatim>\<open>try\<close> with its handler.\<close>

definition caught :: "string \<Rightarrow> exn + Prediction \<Rightarrow> Prediction" where
  "caught tf r = (case r of Inr p \<Rightarrow> p | Inl e \<Rightarrow> error_prediction tf e)"

fun run_timeframes ::
  "config \<Rightarrow> world \<Rightarrow> BatchRequest \<Rightarrow> string \<Rightarrow> int \<Rightarrow> string list \<Rightarrow> server \<Rightarrow>
   Prediction list \<times> server" where
  "run_timeframes cfg w req symbol lmt [] s = ([], s)"
| "run_timeframes cfg w req symbol lmt (tf # tfs) s =
     (let (r, s1) = process_tf cfg w req symbol lmt tf s;
          (ps, s2) = run_timeframes cfg w req symbol lmt tfs s1
      in (caught tf r # ps, s2))"

text \<open>
  \<^verbatim>\<open>batch_predict\<close>. The \<^verbatim>\<open>HTTPException\<close> carries the status code; its detail text is
  not modelled.
\<close>

datatype http_exception = HTTPException nat

definition effective_timeframes :: "BatchRequest \<Rightarrow> string list" where
  "effective_timeframes req = (if req_timeframes req = [] then [''1m''] else req_timeframes req)"

definition effective_limit :: "BatchRequest \<Rightarrow> int" where
  "effective_limit req =
     (case req_limit req of None \<Rightarrow> DEFAULT_LIMIT
      | Some l \<Rightarrow> if l = 0 then DEFAULT_LIMIT else l)"

definition batch_predict ::
  "config \<Rightarrow> world \<Rightarrow> BatchRequest \<Rightarrow> server \<Rightarrow> (http_exception + Prediction list) \<times> server" where
  "batch_predict cfg w req s =
     (let symbol = strip (req_symbol req);
          timeframes = effective_timeframes req
      in if list_ex (\<lambda>tf. tf \<notin> set SUPPORTED_TFS) timeframes then (Inl (HTTPException 400), s)
         else
           (let (results, s1) = run_timeframes cfg w req symbol (effective_limit req) timeframes s
            in (Inr results, s1)))"

subsection \<open>An example environment\<close>

text \<open>
  A world in which no provider answers and no file exists, a configuration with no
  credential, model or indicator library and with exact arithmetic, and a server that
  has just started.
\<close>

definition quiet_world :: world where
  "quiet_world =
     \<lparr>to_datetime = (\<lambda>s. ParseError), clock = (\<lambda>k. 0),
      binance_get = (\<lambda>k sym tf l. HttpError ''ConnectError''),
      oanda_get = (\<lambda>k inst g c. HttpError ''ConnectError''),
      alpha_get = (\<lambda>k f t i. HttpError ''ConnectError''),
      path_exists = (\<lambda>p. False), read_csv = (\<lambda>p. Inl ''FileNotFoundError'')\<rparr>"

definition bare_config :: config where
  "bare_config =
     \<lparr>OANDA_TOKEN = None, ALPHA_VANTAGE_KEY = None, MODEL = None, META = None,
      ta_module = None, float_round = (\<lambda>x. x)\<rparr>"

definition fresh_server :: server where
  "fresh_server = \<lparr>cache = Map.empty, ticks = 0\<rparr>"

subsection \<open>Example series\<close>

text \<open>
  One-minute candles from their (open, high, low, close) values, the first at the epoch,
  with volume 0; \<open>flat_series\<close> gives candles whose four prices agree.
\<close>

definition ohlc_series :: "(real \<times> real \<times> real \<times> real) list \<Rightarrow> frame" where
  "ohlc_series xs =
     map (\<lambda>(i, (o', h, l, c)).
            \<lparr>timestamp = Some (60 * int i), popen = o', high = h, low = l, pclose = c, volume = 0\<rparr>)
         (enumerate 0 xs)"

definition flat_series :: "real list \<Rightarrow> frame" where
  "flat_series ps = ohlc_series (map (\<lambda>p. (p, p, p, p)) ps)"



definition fifty_closes :: "real list" where
  "fifty_closes =
     [100, 103, 108, 108, 110, 114, 113, 114, 117, 122, 122, 124, 128, 127, 128, 131,
      136, 136, 138, 142, 141, 142, 145, 150, 150, 152, 156, 155, 156, 159, 164, 164,
      166, 170, 169, 170, 173, 178, 178, 180, 184, 183, 184, 187, 192, 192, 194, 198,
      197, 198]"

definition rising_world :: world where
  "rising_world =
     quiet_world\<lparr>binance_get :=
       (\<lambda>k sym tf l. HttpResponse 200 (Inr (map to_raw (flat_series fifty_closes))))\<rparr>"

definition short_world :: world where
  "short_world =
     quiet_world\<lparr>binance_get :=
       (\<lambda>k sym tf l. HttpResponse 200
          (Inr (map to_raw (flat_series [10, 9, 10, 11, 12, 13, 14, 15, 16, 17, 18, 19, 20, 21, 22]))))\<rparr>"

definition two_class_model :: model where
  "two_class_model =
     \<lparr>predict_proba = (\<lambda>X. Inr [1 / 5, 4 / 5]), model_classes = [IntClass 0, IntClass 1]\<rparr>"

definition drifted_config :: config where
  "drifted_config =
     bare_config\<lparr>MODEL := Some two_class_model,
       META := Some \<lparr>meta_features = [''ema8'', ''sentiment''], meta_label_map = None\<rparr>\<rparr>"

definition model_only_config :: config where
  "model_only_config = bare_config\<lparr>MODEL := Some two_class_model\<rparr>"



definition btc_request :: "string list \<Rightarrow> BatchRequest" where
  "btc_request tfs =
     \<lparr>req_symbol = ''BINANCE:BTCUSDT'', req_timeframes = tfs, req_candles = None,
      req_limit = None\<rparr>"


section \<open>Properties of the cache\<close>

text \<open>
  C8. After \<open>cache_set\<close> of a value under a key at instant \<open>T\<close>, a \<open>cache_get\<close> of
  that key at any instant up to \<open>T\<close> plus 15 seconds returns the value and leaves the cache
  as it is; at any later instant it returns nothing and the entry is gone from the cache
  (the other keys are untouched).
\<close>

theorem cache_ttl:
  fixes c :: "'p cache"
  shows "(t \<le> T + timedelta_seconds 15 \<longrightarrow>
            cache_get t k (cache_set T k v c) = (Some v, cache_set T k v c)) \<and>
         (t > T + timedelta_seconds 15 \<longrightarrow>
            fst (cache_get t k (cache_set T k v c)) = None \<and>
            snd (cache_get t k (cache_set T k v c)) k = None \<and>
            (\<forall>k'. k' \<noteq> k \<longrightarrow> snd (cache_get t k (cache_set T k v c)) k' = c k'))"
  by (auto simp: cache_get_def cache_set_def CACHE_TTL_SECONDS_def timedelta_seconds_def)

theorem cache_ttl_witness:
  "cache_get 15000000 ''k'' (cache_set 0 ''k'' (7::nat) Map.empty)
     = (Some 7, cache_set 0 ''k'' 7 Map.empty) \<and>
   fst (cache_get 15000001 ''k'' (cache_set 0 ''k'' (7::nat) Map.empty)) = None \<and>
   snd (cache_get 15000001 ''k'' (cache_set 0 ''k'' (7::nat) Map.empty)) ''k'' = None"
  using cache_ttl [of 15000000 0 "''k''" "7::nat" Map.empty]
        cache_ttl [of 15000001 0 "''k''" "7::nat" Map.empty]
  by (simp add: timedelta_seconds_def)

section \<open>Properties of the aggregator\<close>

lemma valid_values_append: "valid_values (xs @ ys) = valid_values xs @ valid_values ys"
  by (induction xs rule: valid_values.induct) simp_all

lemma valid_values_rev: "valid_values (rev xs) = rev (valid_values xs)"
  by (induction xs rule: valid_values.induct) (simp_all add: valid_values_append)

lemma first_valid_eq:
  "first_valid xs = (if valid_values xs = [] then None else Some (hd (valid_values xs)))"
  by (induction xs rule: first_valid.induct) simp_all

lemma last_valid_eq:
  "last_valid xs = (if valid_values xs = [] then None else Some (last (valid_values xs)))"
  by (simp add: last_valid_def first_valid_eq valid_values_rev hd_rev)

lemma max_valid_eq:
  "max_valid xs = (if valid_values xs = [] then None else Some (Max (set (valid_values xs))))"
  by (induction xs rule: max_valid.induct) (auto simp: max.commute split: option.splits)

lemma min_valid_eq:
  "min_valid xs = (if valid_values xs = [] then None else Some (Min (set (valid_values xs))))"
  by (induction xs rule: min_valid.induct) (auto simp: min.commute split: option.splits)

lemma sum_valid_eq: "sum_valid xs = sum_list (valid_values xs)"
  by (induction xs rule: sum_valid.induct) simp_all

lemma filter_eq_distinct:
  "distinct xs \<Longrightarrow> filter (\<lambda>x. Q x \<and> x = a) xs = (if a \<in> set xs \<and> Q a then [a] else [])"
  by (induction xs) auto

lemma bin_width_pos: "0 < m \<Longrightarrow> 0 < bin_width m"
  by (simp add: bin_width_def)

lemma offset_map_pos: "offset_map tf = Some m \<Longrightarrow> 0 < m"
  by (auto simp: offset_map_def split: if_splits)

lemma offset_map_not_1m: "offset_map tf = Some m \<Longrightarrow> tf \<noteq> ''1m''"
  by (auto simp: offset_map_def split: if_splits)

lemma timestamp_agg_bin: "timestamp (agg_bin m b rows) = b * bin_width m"
  by (simp add: agg_bin_def Let_def)

lemma sorted_bins:
  assumes "sorted (map timestamp rows)" "r \<in> set rows" "0 < m"
  shows "bin_of m (timestamp (hd rows)) \<le> bin_of m (timestamp r) \<and>
         bin_of m (timestamp r) \<le> bin_of m (timestamp (last rows))"
proof -
  from assms(2) have ne: "rows \<noteq> []" by auto
  from assms(2) obtain i where i: "i < length rows" "rows ! i = r"
    by (auto simp: in_set_conv_nth)
  from ne have len: "0 < length rows" by simp
  have "timestamp (rows ! 0) \<le> timestamp (rows ! i)"
    using assms(1) i(1) len sorted_nth_mono[of "map timestamp rows" 0 i] by simp
  moreover have "timestamp (rows ! i) \<le> timestamp (rows ! (length rows - 1))"
    using assms(1) i(1) len sorted_nth_mono[of "map timestamp rows" i "length rows - 1"] by simp
  ultimately have "timestamp (hd rows) \<le> timestamp r" "timestamp r \<le> timestamp (last rows)"
    using ne i(2) by (simp_all add: hd_conv_nth last_conv_nth)
  then show ?thesis
    using bin_width_pos[OF assms(3)] by (simp add: bin_of_def zdiv_mono1)
qed

lemma in_bin_empty_outside:
  assumes "sorted (map timestamp rows)" "0 < m" "rows \<noteq> []"
    and "\<not> (bin_of m (timestamp (hd rows)) \<le> b \<and> b \<le> bin_of m (timestamp (last rows)))"
  shows "in_bin m b rows = []"
  unfolding in_bin_def filter_empty_conv using sorted_bins[OF assms(1) _ assms(2)] assms(4) by blast

lemma notna_agg_bin:
  "notna (agg_bin m b rows) \<longleftrightarrow>
     valid_values (map popen (in_bin m b rows)) \<noteq> [] \<and> valid_values (map high (in_bin m b rows)) \<noteq> [] \<and>
     valid_values (map low (in_bin m b rows)) \<noteq> [] \<and> valid_values (map pclose (in_bin m b rows)) \<noteq> []"
  by (simp add: notna_def agg_bin_def Let_def first_valid_eq last_valid_eq max_valid_eq min_valid_eq)

lemma agg_bin_eq:
  "notna (agg_bin m b rows) \<Longrightarrow>
   agg_bin m b rows =
     \<lparr>timestamp = b * bin_width m,
      popen = Some (hd (valid_values (map popen (in_bin m b rows)))),
      high = Some (Max (set (valid_values (map high (in_bin m b rows))))),
      low = Some (Min (set (valid_values (map low (in_bin m b rows))))),
      pclose = Some (last (valid_values (map pclose (in_bin m b rows)))),
      volume = Some (sum_list (valid_values (map volume (in_bin m b rows))))\<rparr>"
  unfolding notna_agg_bin
  by (simp add: agg_bin_def Let_def first_valid_eq last_valid_eq max_valid_eq min_valid_eq sum_valid_eq)

lemma resample_at:
  assumes "0 < m"
  shows "filter (\<lambda>r. timestamp r = b * bin_width m) (dropna (resample_ohlcv m df)) =
         (if notna (agg_bin m b (sort_key timestamp df)) then [agg_bin m b (sort_key timestamp df)] else [])"
proof (cases "sort_key timestamp df = []")
  case True
  then show ?thesis
    by (simp add: resample_ohlcv_def dropna_def notna_agg_bin in_bin_def)
next
  case False
  define rows where "rows = sort_key timestamp df"
  define b0 where "b0 = bin_of m (timestamp (hd rows))"
  define b1 where "b1 = bin_of m (timestamp (last rows))"
  have srt: "sorted (map timestamp rows)" by (simp add: rows_def)
  have ne: "rows \<noteq> []" using False by (simp add: rows_def)
  have W: "bin_width m \<noteq> 0" using bin_width_pos[OF assms] by simp
  have "filter (\<lambda>r. timestamp r = b * bin_width m) (dropna (resample_ohlcv m df)) =
        map (\<lambda>b'. agg_bin m b' rows) (filter (\<lambda>b'. notna (agg_bin m b' rows) \<and> b' = b) [b0..b1])"
    using False W
    by (simp add: resample_ohlcv_def dropna_def Let_def filter_map comp_def timestamp_agg_bin
        rows_def b0_def b1_def conj_commute)
  also have "\<dots> = (if b \<in> set [b0..b1] \<and> notna (agg_bin m b rows) then [agg_bin m b rows] else [])"
    by (simp add: filter_eq_distinct)
  also have "\<dots> = (if notna (agg_bin m b rows) then [agg_bin m b rows] else [])"
  proof (cases "b0 \<le> b \<and> b \<le> b1")
    case True then show ?thesis by simp
  next
    case False
    then have "in_bin m b rows = []"
      using in_bin_empty_outside[OF srt assms ne] by (simp add: b0_def b1_def)
    then have "\<not> notna (agg_bin m b rows)" by (simp add: notna_agg_bin)
    then show ?thesis by simp
  qed
  finally show ?thesis by (simp add: rows_def)
qed

lemma resample_timestamps:
  "r \<in> set (dropna (resample_ohlcv m df)) \<Longrightarrow> \<exists>b. timestamp r = b * bin_width m"
  by (auto simp: dropna_def resample_ohlcv_def Let_def timestamp_agg_bin split: if_splits)


lemma valid_values_map_Some: "valid_values (map Some xs) = xs"
  by (induction xs) simp_all

lemma dated_rows_empty: "dated_rows df = [] \<longleftrightarrow> (\<forall>r\<in>set df. timestamp r = None)"
  by (induction df) (auto simp: dated_rows_def List.map_filter_simps dated_row_def split: option.splits)

lemma filter_undated:
  "filter (\<lambda>r. timestamp r = Some t) (map undated xs) = map undated (filter (\<lambda>r. timestamp r = t) xs)"
  by (induction xs) (simp_all add: undated_def)

text \<open>
  C2 (as amended). Take a frame in which at least one row has a timestamp, and a
  supported coarser timeframe. The aggregation returns a frame whose rows are stamped with
  bin starts, and for every bin \<open>b\<close> it holds exactly one row when each of open, high, low
  and close has at least one value that is not NaN among the input rows of the bin (the
  rows with a timestamp, taken in timestamp order), and no row otherwise. That row's open
  is the first such open, its high the maximum of such highs, its low the minimum of such
  lows, its close the last such close and its volume the sum of the volumes that are not
  NaN. A timeframe other than 1m, 5m, 15m, 1h and 4h raises the error
  "unsupported tf for aggregation", whatever the frame.
\<close>

theorem aggregate_from_1m_buckets:
  "(offset_map tf = Some m \<and> (\<exists>r\<in>set df. timestamp r \<noteq> None) \<longrightarrow>
      (\<exists>out. aggregate_from_1m df tf = Inr out \<and>
         (\<forall>r\<in>set out. \<exists>b. timestamp r = Some (b * bin_width m)) \<and>
         (\<forall>b. filter (\<lambda>r. timestamp r = Some (b * bin_width m)) out =
            (if valid_values (map popen (bucket m b df)) = [] \<or>
                valid_values (map high (bucket m b df)) = [] \<or>
                valid_values (map low (bucket m b df)) = [] \<or>
                valid_values (map pclose (bucket m b df)) = [] then []
             else [\<lparr>timestamp = Some (b * bin_width m),
                    popen = Some (hd (valid_values (map popen (bucket m b df)))),
                    high = Some (Max (set (valid_values (map high (bucket m b df))))),
                    low = Some (Min (set (valid_values (map low (bucket m b df))))),
                    pclose = Some (last (valid_values (map pclose (bucket m b df)))),
                    volume = Some (sum_list (valid_values (map volume (bucket m b df))))\<rparr>])))) \<and>
   (tf \<noteq> ''1m'' \<and> offset_map tf = None \<longrightarrow>
      aggregate_from_1m df tf = Inl (''unsupported tf for aggregation: '' @ tf))"
proof (intro conjI impI)
  assume hyp: "offset_map tf = Some m \<and> (\<exists>r\<in>set df. timestamp r \<noteq> None)"
  then have tf: "offset_map tf = Some m" and dated: "dated_rows df \<noteq> []" and ne: "df \<noteq> []"
    by (auto simp: dated_rows_empty)
  from tf have m: "0 < m" and n1: "tf \<noteq> ''1m''"
    by (auto dest: offset_map_pos offset_map_not_1m)
  define D where "D = dated_rows df"
  let ?out = "map undated (dropna (resample_ohlcv m D))"
  have res: "aggregate_from_1m df tf = Inr ?out"
    using tf n1 dated ne by (simp add: aggregate_from_1m_def D_def)
  have stamps: "\<forall>r\<in>set ?out. \<exists>b. timestamp r = Some (b * bin_width m)"
    using resample_timestamps[of _ m D] by (auto simp: undated_def)
  have bk: "bucket m b df = in_bin m b (sort_key timestamp D)" for b
    by (simp add: bucket_def D_def)
  have rows: "filter (\<lambda>r. timestamp r = Some (b * bin_width m)) ?out =
            (if valid_values (map popen (bucket m b df)) = [] \<or>
                valid_values (map high (bucket m b df)) = [] \<or>
                valid_values (map low (bucket m b df)) = [] \<or>
                valid_values (map pclose (bucket m b df)) = [] then []
             else [\<lparr>timestamp = Some (b * bin_width m),
                    popen = Some (hd (valid_values (map popen (bucket m b df)))),
                    high = Some (Max (set (valid_values (map high (bucket m b df))))),
                    low = Some (Min (set (valid_values (map low (bucket m b df))))),
                    pclose = Some (last (valid_values (map pclose (bucket m b df)))),
                    volume = Some (sum_list (valid_values (map volume (bucket m b df))))\<rparr>])" for b
  proof (cases "notna (agg_bin m b (sort_key timestamp D))")
    case True
    have ne: "valid_values (map popen (bucket m b df)) \<noteq> [] \<and>
        valid_values (map high (bucket m b df)) \<noteq> [] \<and>
        valid_values (map low (bucket m b df)) \<noteq> [] \<and>
        valid_values (map pclose (bucket m b df)) \<noteq> []"
      using True by (simp add: notna_agg_bin bk)
    have e1: "filter (\<lambda>r. timestamp r = Some (b * bin_width m)) ?out =
              [undated (agg_bin m b (sort_key timestamp D))]"
      using True by (simp add: filter_undated resample_at[OF m])
    have e2: "undated (agg_bin m b (sort_key timestamp D)) = \<lparr>timestamp = Some (b * bin_width m),
                    popen = Some (hd (valid_values (map popen (bucket m b df)))),
                    high = Some (Max (set (valid_values (map high (bucket m b df))))),
                    low = Some (Min (set (valid_values (map low (bucket m b df))))),
                    pclose = Some (last (valid_values (map pclose (bucket m b df)))),
                    volume = Some (sum_list (valid_values (map volume (bucket m b df))))\<rparr>"
      by (simp add: agg_bin_eq[OF True] undated_def bk)
    show ?thesis
      using ne by (simp add: e1 e2)
  next
    case False
    then show ?thesis
      by (auto simp: filter_undated resample_at[OF m] notna_agg_bin bk)
  qed
  show "\<exists>out. aggregate_from_1m df tf = Inr out \<and>
         (\<forall>r\<in>set out. \<exists>b. timestamp r = Some (b * bin_width m)) \<and>
         (\<forall>b. filter (\<lambda>r. timestamp r = Some (b * bin_width m)) out =
            (if valid_values (map popen (bucket m b df)) = [] \<or>
                valid_values (map high (bucket m b df)) = [] \<or>
                valid_values (map low (bucket m b df)) = [] \<or>
                valid_values (map pclose (bucket m b df)) = [] then []
             else [\<lparr>timestamp = Some (b * bin_width m),
                    popen = Some (hd (valid_values (map popen (bucket m b df)))),
                    high = Some (Max (set (valid_values (map high (bucket m b df))))),
                    low = Some (Min (set (valid_values (map low (bucket m b df))))),
                    pclose = Some (last (valid_values (map pclose (bucket m b df)))),
                    volume = Some (sum_list (valid_values (map volume (bucket m b df))))\<rparr>]))"
    using res stamps rows by blast
next
  assume "tf \<noteq> ''1m'' \<and> offset_map tf = None"
  then show "aggregate_from_1m df tf = Inl (''unsupported tf for aggregation: '' @ tf)"
    by (simp add: aggregate_from_1m_def)
qed

text \<open>
  The claim as stated fails on a bin that holds a NaN: the bin below is kept although its
  first open and its last volume are NaN, and its open is the second row's.
\<close>

theorem aggregate_from_1m_nan_counterexample:
  "aggregate_from_1m
     [\<lparr>timestamp = Some 0, popen = None, high = Some 1, low = Some 1, pclose = Some 1,
       volume = Some 1\<rparr>,
      \<lparr>timestamp = Some 60, popen = Some 2, high = Some 3, low = Some 0, pclose = Some 2,
       volume = None\<rparr>]
     ''5m''
   = Inr [\<lparr>timestamp = Some 0, popen = Some 2, high = Some 3, low = Some 0, pclose = Some 2,
           volume = Some 1\<rparr>]"
  by (simp add: aggregate_from_1m_def offset_map_def resample_ohlcv_def agg_bin_def in_bin_def
      bin_of_def bin_width_def dropna_def notna_def last_valid_def dated_rows_def
      List.map_filter_simps dated_row_def undated_def)

text \<open>
  An instance: two rows of the bin that starts at the epoch, a row without a timestamp
  that no bin holds, and an unsupported timeframe.
\<close>

theorem aggregate_from_1m_buckets_witness:
  "offset_map ''5m'' = Some 5 \<and>
   (\<exists>out. aggregate_from_1m
       [\<lparr>timestamp = Some 30, popen = Some 4, high = Some 6, low = Some 3, pclose = Some 5,
         volume = Some 1\<rparr>,
        \<lparr>timestamp = Some 90, popen = Some 5, high = Some 9, low = Some 4, pclose = Some 7,
         volume = Some 2\<rparr>,
        \<lparr>timestamp = None, popen = Some 1, high = Some 20, low = Some 1, pclose = Some 1,
         volume = Some 8\<rparr>]
       ''5m'' = Inr out \<and>
      filter (\<lambda>r. timestamp r = Some 0) out =
        [\<lparr>timestamp = Some 0, popen = Some 4, high = Some 9, low = Some 3, pclose = Some 7,
          volume = Some 3\<rparr>]) \<and>
   aggregate_from_1m [] ''2h'' = Inl ''unsupported tf for aggregation: 2h''"
  using aggregate_from_1m_buckets [of "''5m''" 5
      "[\<lparr>timestamp = Some 30, popen = Some 4, high = Some 6, low = Some 3, pclose = Some 5,
         volume = Some 1\<rparr>,
        \<lparr>timestamp = Some 90, popen = Some 5, high = Some 9, low = Some 4, pclose = Some 7,
         volume = Some 2\<rparr>,
        \<lparr>timestamp = None, popen = Some 1, high = Some 20, low = Some 1, pclose = Some 1,
         volume = Some 8\<rparr>]"]
    aggregate_from_1m_buckets [of "''2h''" 0 "[]"]
  apply (simp add: offset_map_def bucket_def in_bin_def bin_of_def bin_width_def dated_rows_def
      List.map_filter_simps dated_row_def)
  apply (elim conjE exE)
  subgoal for out
    apply (drule spec[of _ 0])
    apply (simp add: bucket_def in_bin_def bin_of_def bin_width_def dated_rows_def
      List.map_filter_simps dated_row_def)
    done
  done

section \<open>Properties of the client window\<close>

lemma parse_all_Some: "parse_all parse xs = Some ts \<Longrightarrow> map parse xs = map Parsed ts"
  by (induction xs arbitrary: ts) (auto split: parse_result.splits option.splits)

lemma mset_sort_values: "mset (sort_values df) = mset df"
  by (simp add: sort_values_def)

lemma timestamp_sort_values:
  "\<exists>ts n. map timestamp (sort_values df) = map Some ts @ replicate n None \<and> sorted ts"
proof -
  define ys where "ys = sort_key stamp_key (filter has_stamp df)"
  define zs where "zs = filter (\<lambda>r. \<not> has_stamp r) df"
  have "\<forall>r\<in>set ys. timestamp r = Some (stamp_key r)"
    by (auto simp: ys_def has_stamp_def stamp_key_def)
  then have a: "map timestamp ys = map Some (map stamp_key ys)"
    by simp
  have "\<forall>r\<in>set zs. timestamp r = None"
    by (auto simp: zs_def has_stamp_def)
  then have b: "map timestamp zs = replicate (length zs) None"
    by (simp add: map_replicate_const[symmetric])
  have c: "sorted (map stamp_key ys)"
    by (simp add: ys_def)
  have "map timestamp (sort_values df) = map Some (map stamp_key ys) @ replicate (length zs) None"
    by (simp add: sort_values_def a b ys_def[symmetric] zs_def[symmetric])
  with c show ?thesis by blast
qed

lemma map_filter_as_filter:
  assumes "\<And>x. f (h x) = (if P x then Some (g x) else None)"
  shows "List.map_filter f (map h xs) = map g (filter P xs)"
  by (induction xs) (simp_all add: List.map_filter_simps assms)

lemma clean_rows_window:
  "clean_rows (window_rows ts obj) =
     map (\<lambda>i. \<lparr>timestamp = ts ! i, popen = the (cw_open obj ! i), high = the (cw_high obj ! i),
                low = the (cw_low obj ! i), pclose = the (cw_close obj ! i),
                volume = (case cw_volume obj of
                            None \<Rightarrow> 0
                          | Some vs \<Rightarrow> (case vs ! i of None \<Rightarrow> 0 | Some v \<Rightarrow> v))\<rparr>)
         (filter (\<lambda>i. cw_open obj ! i \<noteq> None \<and> cw_high obj ! i \<noteq> None \<and>
                       cw_low obj ! i \<noteq> None \<and> cw_close obj ! i \<noteq> None)
            [0 ..< length ts])"
  unfolding clean_rows_def window_rows_def
  by (rule map_filter_as_filter) (auto simp: clean_row_def split: option.splits)

text \<open>
  C9 (as amended). In the frame that \<open>candles_to_df\<close> returns the rows that have a
  timestamp come first, in ascending but not strictly ascending order of it, and the rows
  whose timestamp is NaT come last. The frame holds the rows of the window, each as often
  as it occurs there, whose open, high, low and close are all numbers, rows of equal
  timestamp included; a missing volume is 0.
\<close>

theorem candles_to_df_sorted:
  assumes "candles_to_df parse obj = Inr df"
  shows "(\<exists>ts n. map timestamp df = map Some ts @ replicate n None \<and> sorted ts) \<and>
         (\<exists>ts. map parse (cw_timestamp obj) = map Parsed ts \<and>
            mset df =
              image_mset
                (\<lambda>i. \<lparr>timestamp = ts ! i, popen = the (cw_open obj ! i),
                       high = the (cw_high obj ! i), low = the (cw_low obj ! i),
                       pclose = the (cw_close obj ! i),
                       volume = (case cw_volume obj of
                                   None \<Rightarrow> 0
                                 | Some vs \<Rightarrow> (case vs ! i of None \<Rightarrow> 0 | Some v \<Rightarrow> v))\<rparr>)
                (mset (filter (\<lambda>i. cw_open obj ! i \<noteq> None \<and> cw_high obj ! i \<noteq> None \<and>
                                    cw_low obj ! i \<noteq> None \<and> cw_close obj ! i \<noteq> None)
                         [0 ..< length (cw_timestamp obj)])))"
proof -
  from assms obtain ts where
    ts: "parse_all parse (cw_timestamp obj) = Some ts" and
    df: "df = sort_values (clean_rows (window_rows ts obj))"
    by (auto simp: candles_to_df_def split: option.splits if_splits)
  have p: "map parse (cw_timestamp obj) = map Parsed ts"
    by (rule parse_all_Some[OF ts])
  then have len: "length ts = length (cw_timestamp obj)"
    using map_eq_imp_length_eq by fastforce
  have "mset df = mset (clean_rows (window_rows ts obj))"
    by (simp add: df mset_sort_values)
  then have "mset df =
              image_mset
                (\<lambda>i. \<lparr>timestamp = ts ! i, popen = the (cw_open obj ! i),
                       high = the (cw_high obj ! i), low = the (cw_low obj ! i),
                       pclose = the (cw_close obj ! i),
                       volume = (case cw_volume obj of
                                   None \<Rightarrow> 0
                                 | Some vs \<Rightarrow> (case vs ! i of None \<Rightarrow> 0 | Some v \<Rightarrow> v))\<rparr>)
                (mset (filter (\<lambda>i. cw_open obj ! i \<noteq> None \<and> cw_high obj ! i \<noteq> None \<and>
                                    cw_low obj ! i \<noteq> None \<and> cw_close obj ! i \<noteq> None)
                         [0 ..< length (cw_timestamp obj)]))"
    by (simp only: clean_rows_window len mset_map)
  with p timestamp_sort_values[of "clean_rows (window_rows ts obj)"] df show ?thesis
    by blast
qed

text \<open>
  Two rows of the same timestamp both survive, so the frame is not strictly ordered.
\<close>

theorem candles_to_df_duplicate_counterexample:
  "candles_to_df
     (\<lambda>s. if s = ''2024-01-01T00:00:00Z'' then Parsed (Some 1704067200) else ParseError)
     \<lparr>cw_timestamp = [''2024-01-01T00:00:00Z'', ''2024-01-01T00:00:00Z''],
      cw_open = [Some 1, Some 2], cw_high = [Some 1, Some 2], cw_low = [Some 1, Some 2],
      cw_close = [Some 1, Some 2], cw_volume = None\<rparr>
   = Inr [\<lparr>timestamp = Some 1704067200, popen = 1, high = 1, low = 1, pclose = 1, volume = 0\<rparr>,
          \<lparr>timestamp = Some 1704067200, popen = 2, high = 2, low = 2, pclose = 2, volume = 0\<rparr>] \<and>
   \<not> distinct [Some 1704067200, Some 1704067200 :: int option]"
  by (simp add: candles_to_df_def same_length_def window_rows_def clean_rows_def clean_row_def
      List.map_filter_simps sort_values_def has_stamp_def stamp_key_def upt_rec)

text \<open>
  An instance: four rows given out of order, of which the second has no timestamp (the
  empty string), the third has no high and the fourth has no volume.
\<close>

theorem candles_to_df_sorted_witness:
  "candles_to_df
     (\<lambda>s. if s = ''b'' then Parsed (Some 120) else if s = [] then Parsed None
           else Parsed (Some 60))
     \<lparr>cw_timestamp = [''b'', [], ''c'', ''a''],
      cw_open = [Some 1, Some 5, Some 7, Some 2], cw_high = [Some 1, Some 5, None, Some 2],
      cw_low = [Some 1, Some 5, Some 7, Some 2], cw_close = [Some 1, Some 5, Some 7, Some 2],
      cw_volume = Some [Some 3, Some 4, Some 6, None]\<rparr>
   = Inr [\<lparr>timestamp = Some 60, popen = 2, high = 2, low = 2, pclose = 2, volume = 0\<rparr>,
          \<lparr>timestamp = Some 120, popen = 1, high = 1, low = 1, pclose = 1, volume = 3\<rparr>,
          \<lparr>timestamp = None, popen = 5, high = 5, low = 5, pclose = 5, volume = 4\<rparr>] \<and>
   (\<exists>ts n. [Some 60, Some 120, None] = map Some ts @ replicate n None \<and> sorted (ts :: int list))"
proof -
  have run: "candles_to_df
     (\<lambda>s. if s = ''b'' then Parsed (Some 120) else if s = [] then Parsed None
           else Parsed (Some 60))
     \<lparr>cw_timestamp = [''b'', [], ''c'', ''a''],
      cw_open = [Some 1, Some 5, Some 7, Some 2], cw_high = [Some 1, Some 5, None, Some 2],
      cw_low = [Some 1, Some 5, Some 7, Some 2], cw_close = [Some 1, Some 5, Some 7, Some 2],
      cw_volume = Some [Some 3, Some 4, Some 6, None]\<rparr>
   = Inr [\<lparr>timestamp = Some 60, popen = 2, high = 2, low = 2, pclose = 2, volume = 0\<rparr>,
          \<lparr>timestamp = Some 120, popen = 1, high = 1, low = 1, pclose = 1, volume = 3\<rparr>,
          \<lparr>timestamp = None, popen = 5, high = 5, low = 5, pclose = 5, volume = 4\<rparr>]"
    by (simp add: candles_to_df_def same_length_def window_rows_def clean_rows_def clean_row_def
        List.map_filter_simps sort_values_def has_stamp_def stamp_key_def upt_rec)
  from candles_to_df_sorted [OF run] run show ?thesis by simp
qed

section \<open>Properties of the feature and signal engines\<close>

lemma map_filter_snoc:
  "List.map_filter f (xs @ [x]) = List.map_filter f xs @ (case f x of None \<Rightarrow> [] | Some v \<Rightarrow> [v])"
  by (induction xs) (auto simp: List.map_filter_simps split: option.splits)

lemma last_map_filter:
  assumes "xs \<noteq> []" "f (last xs) = Some v"
  shows "List.map_filter f xs \<noteq> [] \<and> last (List.map_filter f xs) = v"
proof -
  from assms(1) obtain ys y where xs: "xs = ys @ [y]" by (metis rev_exhaust)
  with assms(2) show ?thesis by (simp add: map_filter_snoc)
qed

lemma last_with_columns:
  "df \<noteq> [] \<Longrightarrow>
   last (with_columns df ret e8 e21 e50 rsi atr sd mo) =
     \<lparr>candle = df ! (length df - 1), ret_1 = ret ! (length df - 1), ema8 = e8 ! (length df - 1),
      ema21 = e21 ! (length df - 1), ema50 = e50 ! (length df - 1), rsi14 = rsi ! (length df - 1),
      atr14 = atr ! (length df - 1), std5 = sd ! (length df - 1), mom5 = mo ! (length df - 1)\<rparr>"
  by (simp add: with_columns_def last_map)

lemma with_columns_nonempty: "df \<noteq> [] \<Longrightarrow> with_columns df ret e8 e21 e50 rsi atr sd mo \<noteq> []"
  by (simp add: with_columns_def)

lemma last_dropna_features:
  assumes "rows \<noteq> []" "dropna_row (last rows) = Some r"
  shows "dropna_features rows \<noteq> [] \<and> last (dropna_features rows) = r"
  using last_map_filter[of rows dropna_row r] assms by (simp add: dropna_features_def)

lemma compute_features_no_library:
  "3 \<le> length df \<Longrightarrow> compute_features None df = fallback_features df"
  by (simp add: compute_features_def primary_features_def)

lemma fallback_frame_nonempty: "df \<noteq> [] \<Longrightarrow> fallback_frame df \<noteq> []"
  by (simp add: fallback_frame_def Let_def with_columns_nonempty)

lemma fallback_last_row:
  assumes "df \<noteq> []" and "dropna_row (last (fallback_frame df)) = Some r"
  shows "fallback_features df \<noteq> [] \<and> last (fallback_features df) = r"
  unfolding fallback_features_def
  using assms by (intro last_dropna_features fallback_frame_nonempty)

lemmas column_defs = fallback_rsi_def fallback_atr_def true_range_def rolling_mean_def
  rolling_std_def window_def fillna0_def mom_def shift_def clip_lower0_def clip_upper0_def
  rel_strength_def float_div_def dropna_row_def

lemma atr_or_floor_pos: "0 \<le> a \<Longrightarrow> 0 < atr_or_floor a df"
  by (auto simp: atr_or_floor_def)

lemma heuristic_signal_last_row:
  "compute_features ta df \<noteq> [] \<Longrightarrow>
   heuristic_signal_from_df fl ta df =
     \<lparr>label = heuristic_label (last (compute_features ta df)),
      confidence = heuristic_confidence (heuristic_label (last (compute_features ta df)))
                     (last (compute_features ta df)),
      entry = pclose (last df),
      sl = stop_loss fl (heuristic_label (last (compute_features ta df))) (pclose (last df))
             (atr_or_floor (atr14 (last (compute_features ta df))) df),
      tp = take_profit fl (heuristic_label (last (compute_features ta df))) (pclose (last df))
             (atr_or_floor (atr14 (last (compute_features ta df))) df)\<rparr>"
  by (auto simp: heuristic_signal_from_df_def Let_def compute_features_def)




text \<open>
  In exact arithmetic the order is strict.
\<close>

lemma heuristic_levels_exact:
  assumes "compute_features ta df \<noteq> []" and "0 \<le> atr14 (last (compute_features ta df))"
  shows "(label (heuristic_signal_from_df (\<lambda>x. x) ta df) = ''long'' \<longrightarrow>
            sl (heuristic_signal_from_df (\<lambda>x. x) ta df) < entry (heuristic_signal_from_df (\<lambda>x. x) ta df) \<and>
            entry (heuristic_signal_from_df (\<lambda>x. x) ta df) < tp (heuristic_signal_from_df (\<lambda>x. x) ta df)) \<and>
         (label (heuristic_signal_from_df (\<lambda>x. x) ta df) = ''short'' \<longrightarrow>
            tp (heuristic_signal_from_df (\<lambda>x. x) ta df) < entry (heuristic_signal_from_df (\<lambda>x. x) ta df) \<and>
            entry (heuristic_signal_from_df (\<lambda>x. x) ta df) < sl (heuristic_signal_from_df (\<lambda>x. x) ta df))"
  using atr_or_floor_pos[OF assms(2), of df]
  by (simp add: heuristic_signal_last_row[OF assms(1)] stop_loss_def take_profit_def)

lemma no_library_last_row:
  assumes "3 \<le> length df" and "dropna_row (last (fallback_frame df)) = Some r"
  shows "compute_features None df \<noteq> [] \<and> last (compute_features None df) = r"
proof -
  from assms(1) have "df \<noteq> []" by auto
  from fallback_last_row[OF this assms(2)] assms(1) show ?thesis
    by (simp add: compute_features_no_library)
qed

lemmas eval_last_row = fallback_frame_def last_with_columns flat_series_def ohlc_series_def
  column_defs Let_def



text \<open>
  C3. Fifteen closes rising by 1 each: the last 14 deltas are all gains, the average loss
  is 0, and the fallback path derives rsi14 = 0 for the last row, not 100. The quotient of
  the averages is infinite, the guard turns it into NaN and then into 0, and
  100 - 100 / (1 + 0) is 0.
\<close>

theorem fallback_rsi_zero_on_gains:
  "compute_features None
      (flat_series [1, 2, 3, 4, 5, 6, 7, 8, 9, 10, 11, 12, 13, 14, 15]) \<noteq> [] \<and>
   rsi14 (last (compute_features None
      (flat_series [1, 2, 3, 4, 5, 6, 7, 8, 9, 10, 11, 12, 13, 14, 15]))) = 0"
proof -
  let ?df = "flat_series [1, 2, 3, 4, 5, 6, 7, 8, 9, 10, 11, 12, 13, 14, 15]"
  have len: "3 \<le> length ?df"
    by (simp add: flat_series_def ohlc_series_def)
  have "\<exists>r. dropna_row (last (fallback_frame ?df)) = Some r \<and> rsi14 r = 0"
    by (simp add: eval_last_row)
  then obtain r where r: "dropna_row (last (fallback_frame ?df)) = Some r" and z: "rsi14 r = 0"
    by blast
  from no_library_last_row[OF len r] z show ?thesis by simp
qed

text \<open>
  C5. With a model and metadata loaded, a metadata feature list that names a column the
  feature frame does not have makes \<open>model_predict_from_df\<close> raise: the selection of
  the columns stands before the \<^verbatim>\<open>try\<close>. A failure of \<open>predict_proba\<close> itself is
  caught and gives the heuristic's output (\<open>model_predict_inference_failure\<close>).
\<close>

theorem model_predict_key_error:
  "model_predict_from_df fl None
     (Some \<lparr>predict_proba = (\<lambda>X. Inr [1 / 5, 4 / 5]), model_classes = [IntClass 0, IntClass 1]\<rparr>)
     (Some \<lparr>meta_features = [''ema8'', ''sentiment''], meta_label_map = None\<rparr>)
     (flat_series [1, 2, 3, 4, 5, 6, 7, 8, 9, 10, 11, 12, 13, 14, 15])
   = Inl ''KeyError: not in index''"
proof -
  let ?df = "flat_series [1, 2, 3, 4, 5, 6, 7, 8, 9, 10, 11, 12, 13, 14, 15]"
  have len: "3 \<le> length ?df"
    by (simp add: flat_series_def ohlc_series_def)
  have "\<exists>r. dropna_row (last (fallback_frame ?df)) = Some r"
    by (simp add: eval_last_row)
  then obtain r where r: "dropna_row (last (fallback_frame ?df)) = Some r"
    by blast
  from no_library_last_row[OF len r]
  have f: "compute_features None ?df \<noteq> []"
    by simp
  then show ?thesis
    by (simp add: model_predict_from_df_def column_value_def)
qed

lemma model_predict_inference_failure:
  "predict_proba m X = Inl e \<Longrightarrow> compute_features ta df \<noteq> [] \<Longrightarrow> meta_features mta \<noteq> [] \<Longrightarrow>
   those (map (\<lambda>col. column_value col (last (compute_features ta df))) (meta_features mta)) = Some X \<Longrightarrow>
   model_predict_from_df fl ta (Some m) (Some mta) df = Inr (heuristic_signal_from_df fl ta df)"
  by (simp add: model_predict_from_df_def)

subsection \<open>The warm-up of the fallback path\<close>

text \<open>
  In the fallback path the last row of a frame of at least 14 rows survives \<^verbatim>\<open>dropna\<close>
  unless its return is 0/0 or its timestamp is NaT.
\<close>

lemma length_pct_change: "length (pct_change cs) = length cs"
  by (cases cs) simp_all

lemma length_diff: "length (diff cs) = length cs"
  by (cases cs) simp_all

lemma length_shift: "length (shift k xs) = length xs"
  by (simp add: shift_def)

lemma nth_shift: "k \<le> i \<Longrightarrow> i < length xs \<Longrightarrow> shift k xs ! i = Some (xs ! (i - k))"
  by (simp add: shift_def nth_append)

lemma length_rolling_mean: "length (rolling_mean w xs) = length xs"
  by (simp add: rolling_mean_def)

lemma length_rolling_std: "length (rolling_std w xs) = length xs"
  by (simp add: rolling_std_def)

lemma length_ewm_from: "length (ewm_from a p xs) = length xs"
  by (induction xs arbitrary: p) (simp_all add: Let_def)

lemma length_ewm_mean: "length (ewm_mean k xs) = length xs"
  by (cases xs) (simp_all add: length_ewm_from)

lemma length_fallback_rsi: "length (fallback_rsi cs) = length cs"
  by (simp add: fallback_rsi_def Let_def length_rolling_mean clip_lower0_def clip_upper0_def
      length_diff)

lemma length_true_range:
  "length (true_range (map high df) (map low df) (map pclose df)) = length df"
  by (simp add: true_range_def length_shift)

lemma nth_pct_change:
  "0 < i \<Longrightarrow> i < length cs \<Longrightarrow>
   pct_change cs ! i = xsub1 (float_div (cs ! i) (cs ! (i - 1)))"
proof (cases cs)
  case Nil
  then show "0 < i \<Longrightarrow> i < length cs \<Longrightarrow> ?thesis" by simp
next
  case (Cons c rest)
  assume i: "0 < i" "i < length cs"
  then obtain j where j: "i = Suc j" by (cases i) auto
  with i Cons have "j < length rest" by simp
  then show ?thesis
    using Cons j by (simp add: nth_Cons')
qed

lemma xsub1_nan: "xsub1 v = XNaN \<longleftrightarrow> v = XNaN"
  by (cases v) simp_all

lemma float_div_nan: "float_div a b = XNaN \<longleftrightarrow> a = 0 \<and> b = 0"
  by (simp add: float_div_def)

lemma those_map_Some: "those (map Some xs) = Some xs"
  by (induction xs) simp_all

lemma nth_rolling_mean_Some:
  "w \<le> Suc i \<Longrightarrow> i < length xs \<Longrightarrow>
   rolling_mean w (map Some xs) ! i = Some (sum_list (window w i xs) / real w)"
proof -
  assume a: "w \<le> Suc i" "i < length xs"
  have "take w (drop (Suc i - w) (map Some xs)) = map Some (take w (drop (Suc i - w) xs))"
    by (simp add: take_map drop_map)
  then have "those (window w i (map Some xs)) = Some (window w i xs)"
    by (simp only: window_def those_map_Some)
  with a show ?thesis
    by (simp add: rolling_mean_def)
qed

lemma nth_fillna0: "i < length xs \<Longrightarrow> \<exists>v. fillna0 xs ! i = Some v"
  by (simp add: fillna0_def split: option.splits)

lemma nth_fallback_rsi: "i < length cs \<Longrightarrow> \<exists>v. fallback_rsi cs ! i = Some v"
  by (simp add: fallback_rsi_def Let_def length_rolling_mean clip_lower0_def clip_upper0_def
      length_diff split: prod.splits)

lemma nth_mom: "k \<le> i \<Longrightarrow> i < length cs \<Longrightarrow> mom k cs ! i = Some (cs ! i - cs ! (i - k))"
  by (simp add: mom_def length_shift nth_shift)

lemma fallback_last_survives:
  assumes "14 \<le> length df"
    and "pclose (df ! (length df - 1)) \<noteq> 0 \<or> pclose (df ! (length df - 2)) \<noteq> 0"
    and "timestamp (df ! (length df - 1)) \<noteq> None"
  shows "\<exists>r. dropna_row (last (fallback_frame df)) = Some r"
proof -
  let ?i = "length df - 1"
  let ?c = "map pclose df"
  from assms(1) have ne: "df \<noteq> []" and i: "?i < length df" "13 \<le> ?i" by auto
  have ret: "pct_change ?c ! ?i \<noteq> XNaN"
  proof -
    have "pct_change ?c ! ?i = xsub1 (float_div (?c ! ?i) (?c ! (?i - 1)))"
      using i by (intro nth_pct_change) simp_all
    moreover have "?c ! ?i = pclose (df ! ?i)" "?c ! (?i - 1) = pclose (df ! (length df - 2))"
      using i by (simp_all add: numeral_2_eq_2)
    ultimately show ?thesis
      using assms(2) by (simp add: xsub1_nan float_div_nan)
  qed
  obtain rsi where rsi: "fallback_rsi ?c ! ?i = Some rsi"
    using nth_fallback_rsi[of ?i ?c] i by auto
  obtain sd where sd: "fillna0 (rolling_std 5 (pct_change ?c)) ! ?i = Some sd"
    using nth_fillna0[of ?i "rolling_std 5 (pct_change ?c)"] i
    by (auto simp: length_rolling_std length_pct_change)
  have atr: "fallback_atr (map high df) (map low df) ?c ! ?i =
      Some (sum_list (window 14 ?i (true_range (map high df) (map low df) ?c)) / real 14)"
    unfolding fallback_atr_def using i
    by (intro nth_rolling_mean_Some) (simp_all add: length_true_range)
  have mo: "mom 5 ?c ! ?i = Some (?c ! ?i - ?c ! (?i - 5))"
    using i by (intro nth_mom) simp_all
  have e: "map Some (ewm_mean k ?c) ! ?i = Some (ewm_mean k ?c ! ?i)" for k
    using i by (simp add: length_ewm_mean)
  show ?thesis
    using ret rsi sd atr mo e ne assms(3)
    by (simp add: fallback_frame_def Let_def last_with_columns dropna_row_def)
qed


lemma length_flat_series: "length (flat_series ps) = length ps"
  by (simp add: flat_series_def ohlc_series_def)

lemma map_snd_part_enumerate: "map (\<lambda>x. f (snd x)) (enumerate n xs) = map f xs"
  by (induction xs arbitrary: n) simp_all

lemma pclose_flat_series: "map pclose (flat_series ps) = ps"
  by (simp add: flat_series_def ohlc_series_def comp_def case_prod_beta
      map_snd_part_enumerate[of "\<lambda>y. snd (snd (snd y))"] map_idI)

lemma timestamp_flat_series: "r \<in> set (flat_series ps) \<Longrightarrow> timestamp r \<noteq> None"
  by (auto simp: flat_series_def ohlc_series_def)

lemma flat_series_features:
  assumes "14 \<le> length ps" and "last ps \<noteq> 0"
  shows "compute_features None (flat_series ps) \<noteq> []"
proof -
  let ?df = "flat_series ps"
  have len: "14 \<le> length ?df" "3 \<le> length ?df"
    using assms(1) by (simp_all add: length_flat_series)
  from assms(1) have ne: "ps \<noteq> []" by auto
  have "pclose (?df ! (length ?df - 1)) = map pclose ?df ! (length ?df - 1)"
    using len by (intro nth_map[symmetric]) simp
  also have "\<dots> = last ps"
    using ne by (simp add: pclose_flat_series length_flat_series last_conv_nth)
  finally have "pclose (?df ! (length ?df - 1)) \<noteq> 0"
    using assms(2) by simp
  moreover have "timestamp (?df ! (length ?df - 1)) \<noteq> None"
    using len by (intro timestamp_flat_series[of _ ps] nth_mem) simp
  ultimately obtain r where "dropna_row (last (fallback_frame ?df)) = Some r"
    using fallback_last_survives[OF len(1)] by blast
  from no_library_last_row[OF len(2) this] show ?thesis
    by simp
qed

section \<open>Properties of the orchestrator\<close>

lemma timeframe_predict_frame: "predict_frame cfg tf df src = Inr p \<Longrightarrow> timeframe p = tf"
  by (auto simp: predict_frame_def no_data_def to_prediction_def Let_def
      split: option.splits if_splits sum.splits)

lemma timeframe_process_tf:
  "fst (process_tf cfg w req symbol lmt tf s) = Inr p \<Longrightarrow> timeframe p = tf"
  by (auto simp: process_tf_def split: prod.splits sum.splits dest: timeframe_predict_frame)

lemma timeframe_caught:
  "timeframe (caught tf (fst (process_tf cfg w req symbol lmt tf s))) = tf"
  by (cases "fst (process_tf cfg w req symbol lmt tf s)")
     (auto simp: caught_def error_prediction_def dest: timeframe_process_tf)

lemma run_timeframes_timeframes:
  "map timeframe (fst (run_timeframes cfg w req symbol lmt tfs s)) = tfs"
proof (induction tfs arbitrary: s)
  case Nil
  show ?case by simp
next
  case (Cons tf tfs)
  obtain r s1 where p: "process_tf cfg w req symbol lmt tf s = (r, s1)"
    by (cases "process_tf cfg w req symbol lmt tf s")
  obtain ps s2 where q: "run_timeframes cfg w req symbol lmt tfs s1 = (ps, s2)"
    by (cases "run_timeframes cfg w req symbol lmt tfs s1")
  have "timeframe (caught tf r) = tf"
    using timeframe_caught[of tf cfg w req symbol lmt s] p by simp
  moreover have "map timeframe ps = tfs"
    using Cons.IH[of s1] q by simp
  ultimately show ?case
    by (simp add: p q)
qed

lemma run_timeframes_each:
  "i < length tfs \<Longrightarrow>
   \<exists>s0. fst (run_timeframes cfg w req symbol lmt tfs s) ! i =
          caught (tfs ! i) (fst (process_tf cfg w req symbol lmt (tfs ! i) s0))"
proof (induction tfs arbitrary: s i)
  case Nil
  then show ?case by simp
next
  case (Cons tf tfs)
  obtain r s1 where p: "process_tf cfg w req symbol lmt tf s = (r, s1)"
    by (cases "process_tf cfg w req symbol lmt tf s")
  obtain ps s2 where q: "run_timeframes cfg w req symbol lmt tfs s1 = (ps, s2)"
    by (cases "run_timeframes cfg w req symbol lmt tfs s1")
  show ?case
  proof (cases i)
    case 0
    have "fst (run_timeframes cfg w req symbol lmt (tf # tfs) s) ! 0 =
          caught tf (fst (process_tf cfg w req symbol lmt tf s))"
      by (simp add: p q)
    with 0 show ?thesis by auto
  next
    case (Suc j)
    with Cons.prems have "j < length tfs" by simp
    from Cons.IH[OF this, of s1] obtain s0 where
      "fst (run_timeframes cfg w req symbol lmt tfs s1) ! j =
         caught (tfs ! j) (fst (process_tf cfg w req symbol lmt (tfs ! j) s0))"
      by blast
    then have "fst (run_timeframes cfg w req symbol lmt (tf # tfs) s) ! Suc j =
         caught ((tf # tfs) ! Suc j) (fst (process_tf cfg w req symbol lmt ((tf # tfs) ! Suc j) s0))"
      by (simp add: p q)
    with Suc show ?thesis by blast
  qed
qed

lemma effective_timeframes_supported:
  "set (req_timeframes req) \<subseteq> set SUPPORTED_TFS \<Longrightarrow>
   \<not> list_ex (\<lambda>tf. tf \<notin> set SUPPORTED_TFS) (effective_timeframes req)"
  by (auto simp: effective_timeframes_def list_ex_iff SUPPORTED_TFS_def)

text \<open>
  C1 (as amended). For a request whose timeframes are all supported, \<open>batch_predict\<close>
  returns a list of Predictions, not an HTTP error, with exactly one Prediction per
  timeframe of the list in request order; an empty list counts as the list of 1m alone.
  Each Prediction is what processing its timeframe gave in some server state, and when
  that processing raised an exception \<open>e\<close> it is the Prediction with label none,
  confidence, entry, stop and target 0 and the source "error:" followed by the first 120
  characters of the message: the exception is caught and the later timeframes are still
  processed.
\<close>

theorem batch_predict_one_per_timeframe:
  "(set (req_timeframes req) \<subseteq> set SUPPORTED_TFS \<longrightarrow>
      (\<exists>ps s'. batch_predict cfg w req s = (Inr ps, s') \<and>
         map timeframe ps = (if req_timeframes req = [] then [''1m''] else req_timeframes req) \<and>
         (\<forall>i<length ps. \<exists>s0.
            ps ! i =
              caught (timeframe (ps ! i))
                (fst (process_tf cfg w req (strip (req_symbol req)) (effective_limit req)
                        (timeframe (ps ! i)) s0))))) \<and>
   (\<forall>tf e. caught tf (Inl e) =
      \<lparr>label = ''none'', confidence = 0, entry = 0, sl = 0, tp = 0, timeframe = tf,
       source = ''error:'' @ take 120 e\<rparr>)"
proof (intro conjI impI allI)
  assume ok: "set (req_timeframes req) \<subseteq> set SUPPORTED_TFS"
  let ?tfs = "effective_timeframes req"
  let ?run = "run_timeframes cfg w req (strip (req_symbol req)) (effective_limit req) ?tfs s"
  have res: "batch_predict cfg w req s = (Inr (fst ?run), snd ?run)"
    using effective_timeframes_supported[OF ok]
    by (simp add: batch_predict_def Let_def split: prod.splits)
  have tfs: "map timeframe (fst ?run) = ?tfs"
    by (rule run_timeframes_timeframes)
  then have len: "length (fst ?run) = length ?tfs"
    by (metis length_map)
  have each: "\<exists>s0. fst ?run ! i =
      caught (timeframe (fst ?run ! i))
        (fst (process_tf cfg w req (strip (req_symbol req)) (effective_limit req)
                (timeframe (fst ?run ! i)) s0))"
    if "i < length (fst ?run)" for i
  proof -
    from that len have i: "i < length ?tfs" by simp
    have "timeframe (fst ?run ! i) = ?tfs ! i"
      using tfs that by (metis nth_map)
    with run_timeframes_each[OF i, of cfg w req "strip (req_symbol req)" "effective_limit req" s]
    show ?thesis by simp
  qed
  show "\<exists>ps s'. batch_predict cfg w req s = (Inr ps, s') \<and>
         map timeframe ps = (if req_timeframes req = [] then [''1m''] else req_timeframes req) \<and>
         (\<forall>i<length ps. \<exists>s0.
            ps ! i =
              caught (timeframe (ps ! i))
                (fst (process_tf cfg w req (strip (req_symbol req)) (effective_limit req)
                        (timeframe (ps ! i)) s0)))"
    using res tfs each by (auto simp: effective_timeframes_def)
next
  fix tf e
  show "caught tf (Inl e) =
      \<lparr>label = ''none'', confidence = 0, entry = 0, sl = 0, tp = 0, timeframe = tf,
       source = ''error:'' @ take 120 e\<rparr>"
    by (simp add: caught_def error_prediction_def)
qed

lemma resolve_src_not_model:
  "resolve cfg w req symbol lmt tf s = (Inr (df, src), s1) \<Longrightarrow> src_or_heuristic src \<noteq> ''model''"
  by (auto simp: resolve_def src_or_heuristic_def
      split: option.splits sum.splits prod.splits if_splits)


lemma signal_no_data:
  "label (no_data tf) = ''none'' \<and> confidence (no_data tf) = 0 \<and> entry (no_data tf) = 0 \<and>
   sl (no_data tf) = 0 \<and> tp (no_data tf) = 0 \<and> source (no_data tf) = ''no-data''"
  by (simp add: no_data_def)

text \<open>
  C6. When the frame resolved for a timeframe has fewer than 50 rows after cleaning (or
  none, or is missing), processing the timeframe yields a Prediction whose label,
  confidence, entry, stop and target are the heuristic strategy's on the cleaned frame and
  whose source is not "model", whatever \<open>MODEL\<close> is.
\<close>

theorem short_series_uses_heuristic:
  assumes "resolve cfg w req symbol lmt tf s = (Inr (df, src), s1)"
    and "length (clean_rows (case df of None \<Rightarrow> [] | Some raw \<Rightarrow> raw)) < 50"
  shows "\<exists>p. process_tf cfg w req symbol lmt tf s = (Inr p, s1) \<and>
           source p \<noteq> ''model'' \<and>
           label p = label (heuristic_signal_from_df (float_round cfg) (ta_module cfg)
                        (clean_rows (case df of None \<Rightarrow> [] | Some raw \<Rightarrow> raw))) \<and>
           confidence p = confidence (heuristic_signal_from_df (float_round cfg) (ta_module cfg)
                        (clean_rows (case df of None \<Rightarrow> [] | Some raw \<Rightarrow> raw))) \<and>
           entry p = entry (heuristic_signal_from_df (float_round cfg) (ta_module cfg)
                        (clean_rows (case df of None \<Rightarrow> [] | Some raw \<Rightarrow> raw))) \<and>
           sl p = sl (heuristic_signal_from_df (float_round cfg) (ta_module cfg)
                        (clean_rows (case df of None \<Rightarrow> [] | Some raw \<Rightarrow> raw))) \<and>
           tp p = tp (heuristic_signal_from_df (float_round cfg) (ta_module cfg)
                        (clean_rows (case df of None \<Rightarrow> [] | Some raw \<Rightarrow> raw)))"
proof -
  have nm: "src_or_heuristic src \<noteq> ''model''"
    using assms(1) by (rule resolve_src_not_model)
  have empty: "clean_rows [] = []"
    by (simp add: clean_rows_def List.map_filter_simps)
  have h0: "heuristic_signal_from_df (float_round cfg) (ta_module cfg) [] =
      \<lparr>label = ''none'', confidence = 0, entry = 0, sl = 0, tp = 0\<rparr>"
    by (simp add: heuristic_signal_from_df_def)
  show ?thesis
  proof (cases "df = None \<or> df = Some []")
    case True
    then have "process_tf cfg w req symbol lmt tf s = (Inr (no_data tf), s1)"
      using assms(1) by (auto simp: process_tf_def predict_frame_def)
    moreover have "clean_rows (case df of None \<Rightarrow> [] | Some raw \<Rightarrow> raw) = []"
      using True empty by auto
    ultimately show ?thesis
      by (simp add: h0 no_data_def)
  next
    case False
    then obtain raw where raw: "df = Some raw" "raw \<noteq> []" by auto
    with assms have "process_tf cfg w req symbol lmt tf s =
        (Inr (to_prediction (heuristic_signal_from_df (float_round cfg) (ta_module cfg) (clean_rows raw)) tf
                (src_or_heuristic src)), s1)"
      by (simp add: process_tf_def predict_frame_def Let_def)
    then show ?thesis
      using nm raw by (simp add: to_prediction_def)
  qed
qed

text \<open>
  C10 (as amended). When a model is loaded, the cleaned frame of a timeframe has at least
  50 rows and \<open>model_predict_from_df\<close> returns a result, the Prediction carries that
  result and its source is exactly "model"; the result is the heuristic's whenever
  \<open>model_predict_from_df\<close> fell back to it (no metadata, no feature row, no feature
  list, or \<open>predict_proba\<close> raising), so the tag does not tell the strategies or the
  adapter apart.
\<close>

theorem long_series_source_model:
  assumes "resolve cfg w req symbol lmt tf s = (Inr (Some raw, src), s1)"
    and "50 \<le> length (clean_rows raw)"
    and "MODEL cfg \<noteq> None"
    and "model_predict_from_df (float_round cfg) (ta_module cfg) (MODEL cfg) (META cfg)
           (clean_rows raw) = Inr pred"
  shows "process_tf cfg w req symbol lmt tf s = (Inr (to_prediction pred tf ''model''), s1) \<and>
         source (to_prediction pred tf ''model'') = ''model''"
proof -
  from assms(2) have "clean_rows raw \<noteq> []" by auto
  then have "raw \<noteq> []"
    by (auto simp: clean_rows_def List.map_filter_simps)
  with assms show ?thesis
    by (auto simp: process_tf_def predict_frame_def Let_def to_prediction_def)
qed


lemma clean_rows_to_raw: "clean_rows (map to_raw df) = df"
  by (induction df) (simp_all add: clean_rows_def List.map_filter_simps clean_row_def to_raw_def)

lemma is_binance_btc: "is_binance ''BINANCE:BTCUSDT''"
  by (simp add: is_binance_def startswith_def str_upper_def char_upper_def)

lemma strip_btc: "strip ''BINANCE:BTCUSDT'' = ''BINANCE:BTCUSDT''"
  by (simp add: strip_def is_space_def)

lemma cache_update_same: "cache s = c \<Longrightarrow> s\<lparr>cache := c\<rparr> = s"
  by (cases s) simp

lemma fetch_binance_cold:
  "fst (cache_get_io w (''binance::'' @ symbol @ ''::'' @ tf @ ''::'' @ str_int lmt) s) = None \<Longrightarrow>
   fst (fetch_binance_klines w symbol tf lmt s) =
     binance_outcome (binance_get w (Suc (ticks s)) (str_replace ''BINANCE:'' [] symbol) tf lmt)"
  by (auto simp: fetch_binance_klines_def cache_get_io_def Let_def tick_def
      split: prod.splits sum.splits)

lemma resolve_binance_cold:
  assumes "client_window req tf = None" "is_binance symbol"
    and "fst (cache_get_io w (''binance::'' @ symbol @ ''::'' @ tf @ ''::'' @ str_int lmt) s) = None"
  shows "\<exists>s1. resolve cfg w req symbol lmt tf s =
     (case binance_outcome
             (binance_get w (Suc (ticks s)) (str_replace ''BINANCE:'' [] symbol) tf lmt) of
        Inl e \<Rightarrow> Inl e
      | Inr out \<Rightarrow> Inr (Some out, ''binance-rest''), s1)"
  using assms(1,2) fetch_binance_cold[OF assms(3)]
  by (auto simp: resolve_def split: prod.splits sum.splits)

lemma cold_fresh_server: "fst (cache_get_io w key fresh_server) = None"
  by (simp add: cache_get_io_def cache_get_def fresh_server_def)

lemma cw_btc: "client_window (btc_request tfs) tf = None"
  by (simp add: client_window_def btc_request_def)

text \<open>
  A request with an empty timeframe list passes the validation and is answered with one
  Prediction, for 1m, which the request did not name.
\<close>

theorem batch_predict_empty_list_counterexample:
  "fst (batch_predict bare_config quiet_world
          \<lparr>req_symbol = ''EURUSD'', req_timeframes = [], req_candles = None, req_limit = None\<rparr>
          fresh_server)
   = Inr [\<lparr>label = ''none'', confidence = 0, entry = 0, sl = 0, tp = 0, timeframe = ''1m'',
          source = ''no-data''\<rparr>]"
  by (simp add: batch_predict_def effective_timeframes_def effective_limit_def SUPPORTED_TFS_def
      process_tf_def resolve_def client_window_def is_binance_def is_oanda_def
      is_alpha_candidate_def startswith_def str_upper_def char_upper_def strip_def is_space_def
      local_csv_candidates_def quiet_world_def bare_config_def predict_frame_def caught_def
      no_data_def unset_def Let_def)

theorem batch_predict_one_per_timeframe_witness:
  "\<exists>ps s'. batch_predict bare_config quiet_world (btc_request [''1m'', ''4h'']) fresh_server
             = (Inr ps, s') \<and>
           map timeframe ps = [''1m'', ''4h'']"
  using batch_predict_one_per_timeframe
          [of "btc_request [''1m'', ''4h'']" bare_config quiet_world fresh_server]
  by (auto simp: btc_request_def SUPPORTED_TFS_def)



lemma resolve_binance_ok:
  assumes "client_window req tf = None" "is_binance symbol"
    and "fst (cache_get_io w (''binance::'' @ symbol @ ''::'' @ tf @ ''::'' @ str_int lmt) s) = None"
    and "binance_get w (Suc (ticks s)) (str_replace ''BINANCE:'' [] symbol) tf lmt
           = HttpResponse 200 (Inr out)"
  shows "\<exists>s1. resolve cfg w req symbol lmt tf s = (Inr (Some out, ''binance-rest''), s1)"
  using resolve_binance_cold[OF assms(1,2,3), of cfg] assms(4)
  by (simp add: binance_outcome_def is_success_def)

theorem short_series_uses_heuristic_witness:
  "\<exists>p s1. process_tf model_only_config short_world (btc_request [''1m'']) ''BINANCE:BTCUSDT''
             DEFAULT_LIMIT ''1m'' fresh_server = (Inr p, s1) \<and>
          source p \<noteq> ''model''"
proof -
  let ?raw = "map to_raw (flat_series [10, 9, 10, 11, 12, 13, 14, 15, 16, 17, 18, 19, 20, 21, 22])"
  have "\<exists>s1. resolve model_only_config short_world (btc_request [''1m'']) ''BINANCE:BTCUSDT''
          DEFAULT_LIMIT ''1m'' fresh_server = (Inr (Some ?raw, ''binance-rest''), s1)"
    by (rule resolve_binance_ok)
       (simp_all add: cw_btc is_binance_btc cold_fresh_server short_world_def
          quiet_world_def)
  then obtain s1 where r: "resolve model_only_config short_world (btc_request [''1m''])
      ''BINANCE:BTCUSDT'' DEFAULT_LIMIT ''1m'' fresh_server = (Inr (Some ?raw, ''binance-rest''), s1)"
    by blast
  have "length (clean_rows ?raw) = 15"
    by (simp only: clean_rows_to_raw length_flat_series) simp
  then have short: "length (clean_rows (case Some ?raw of None \<Rightarrow> [] | Some raw \<Rightarrow> raw)) < 50"
    by simp
  from short_series_uses_heuristic[OF r short] show ?thesis
    by blast
qed

lemma model_predict_no_meta:
  "model_predict_from_df fl t m None df = Inr (heuristic_signal_from_df fl t df)"
  by (cases m) (simp_all add: model_predict_from_df_def)

lemma length_fifty: "length (flat_series fifty_closes) = 50"
  by (simp add: length_flat_series fifty_closes_def)

theorem long_series_source_model_witness:
  "\<exists>p s1. process_tf model_only_config rising_world (btc_request [''1m'']) ''BINANCE:BTCUSDT''
             DEFAULT_LIMIT ''1m'' fresh_server = (Inr p, s1) \<and>
          source p = ''model''"
proof -
  let ?raw = "map to_raw (flat_series fifty_closes)"
  have "\<exists>s1. resolve model_only_config rising_world (btc_request [''1m'']) ''BINANCE:BTCUSDT''
          DEFAULT_LIMIT ''1m'' fresh_server = (Inr (Some ?raw, ''binance-rest''), s1)"
    by (rule resolve_binance_ok)
       (simp_all add: cw_btc is_binance_btc cold_fresh_server rising_world_def
          quiet_world_def)
  then obtain s1 where r: "resolve model_only_config rising_world (btc_request [''1m''])
      ''BINANCE:BTCUSDT'' DEFAULT_LIMIT ''1m'' fresh_server = (Inr (Some ?raw, ''binance-rest''), s1)"
    by blast
  have long: "50 \<le> length (clean_rows ?raw)"
    by (simp add: clean_rows_to_raw length_fifty)
  have loaded: "MODEL model_only_config \<noteq> None"
    by (simp add: model_only_config_def)
  have pred: "model_predict_from_df (float_round model_only_config)
      (ta_module model_only_config) (MODEL model_only_config)
      (META model_only_config) (clean_rows ?raw)
      = Inr (heuristic_signal_from_df (\<lambda>x. x) None (flat_series fifty_closes))"
    by (simp add: model_only_config_def bare_config_def model_predict_no_meta clean_rows_to_raw)
  from long_series_source_model[OF r long loaded pred] show ?thesis
    by blast
qed

lemma fifty_features: "compute_features None (flat_series fifty_closes) \<noteq> []"
  by (rule flat_series_features) (simp_all add: fifty_closes_def)

text \<open>
  With a loaded model and 50 rows the source is not always "model": when
  \<open>model_predict_from_df\<close> raises, the handler of the loop tags the Prediction as an
  error.
\<close>

theorem model_exception_counterexample:
  "fst (batch_predict drifted_config rising_world (btc_request [''1m'']) fresh_server)
   = Inr [\<lparr>label = ''none'', confidence = 0, entry = 0, sl = 0, tp = 0, timeframe = ''1m'',
          source = ''error:KeyError: not in index''\<rparr>]"
proof -
  let ?raw = "map to_raw (flat_series fifty_closes)"
  have "\<exists>s1. resolve drifted_config rising_world (btc_request [''1m'']) ''BINANCE:BTCUSDT''
          DEFAULT_LIMIT ''1m'' fresh_server = (Inr (Some ?raw, ''binance-rest''), s1)"
    by (rule resolve_binance_ok)
       (simp_all add: cw_btc is_binance_btc cold_fresh_server rising_world_def
          quiet_world_def)
  then obtain s1 where r: "resolve drifted_config rising_world (btc_request [''1m''])
      ''BINANCE:BTCUSDT'' DEFAULT_LIMIT ''1m'' fresh_server = (Inr (Some ?raw, ''binance-rest''), s1)"
    by blast
  have ne: "?raw \<noteq> []"
    using length_fifty by auto
  have pred: "model_predict_from_df (\<lambda>x. x) None (Some two_class_model)
      (Some \<lparr>meta_features = [''ema8'', ''sentiment''], meta_label_map = None\<rparr>)
      (flat_series fifty_closes) = Inl ''KeyError: not in index''"
    using fifty_features by (simp add: model_predict_from_df_def column_value_def)
  have cfg: "MODEL drifted_config = Some two_class_model"
    "META drifted_config = Some \<lparr>meta_features = [''ema8'', ''sentiment''], meta_label_map = None\<rparr>"
    "ta_module drifted_config = None" "float_round drifted_config = (\<lambda>x. x)"
    by (simp_all add: drifted_config_def bare_config_def)
  have "process_tf drifted_config rising_world (btc_request [''1m'']) ''BINANCE:BTCUSDT''
          DEFAULT_LIMIT ''1m'' fresh_server = (Inl ''KeyError: not in index'', s1)"
    using ne pred
    by (simp add: process_tf_def r predict_frame_def clean_rows_to_raw length_fifty Let_def cfg)
  then show ?thesis
    by (simp add: batch_predict_def effective_timeframes_def effective_limit_def SUPPORTED_TFS_def
        btc_request_def strip_btc caught_def error_prediction_def Let_def)
qed








section \<open>The fallback indicators in general\<close>

text \<open>
  Two facts behind C3 and C7, for every frame. In the fallback path a last row that has a
  timestamp and whose 14 deltas are all gains (or zero) gets rsi14 = 0, whatever the gains
  are
  (\<open>fallback_rsi_all_gains\<close>). And when the first candle has its low at or below its
  high, no feature row of the fallback path has a negative atr14
  (\<open>fallback_atr14_nonneg\<close>): every true range but the first is at least 0, and the
  first is the candle's high minus its low.
\<close>

lemma nth_diff:
  "0 < i \<Longrightarrow> i < length cs \<Longrightarrow> diff cs ! i = Some (cs ! i - cs ! (i - 1))"
proof (cases cs)
  case Nil
  then show "0 < i \<Longrightarrow> i < length cs \<Longrightarrow> ?thesis" by simp
next
  case (Cons c rest)
  assume i: "0 < i" "i < length cs"
  then obtain j where j: "i = Suc j" by (cases i) auto
  with i Cons have "j < length rest" by simp
  then show ?thesis
    using Cons j by (simp add: nth_Cons')
qed

lemma length_window: "w \<le> Suc i \<Longrightarrow> i < length xs \<Longrightarrow> length (window w i xs) = w"
  by (simp add: window_def)

lemma nth_window:
  "w \<le> Suc i \<Longrightarrow> i < length xs \<Longrightarrow> k < w \<Longrightarrow> window w i xs ! k = xs ! (Suc i - w + k)"
  by (simp add: window_def)

lemma window_all:
  assumes "w \<le> Suc i" "i < length xs" "\<And>j. Suc i - w \<le> j \<Longrightarrow> j \<le> i \<Longrightarrow> xs ! j = v"
  shows "window w i xs = replicate w v"
proof (rule nth_equalityI)
  show "length (window w i xs) = length (replicate w v)"
    using assms(1,2) by (simp add: length_window)
next
  fix k assume "k < length (window w i xs)"
  then have k: "k < w" using assms(1,2) by (simp add: length_window)
  then have "window w i xs ! k = xs ! (Suc i - w + k)"
    using assms(1,2) by (simp add: nth_window)
  also have "\<dots> = v"
    using k assms(1) by (intro assms(3)) auto
  finally show "window w i xs ! k = replicate w v ! k"
    using k by simp
qed

lemma those_replicate_Some: "those (replicate n (Some v)) = Some (replicate n v)"
  by (induction n) simp_all

lemma sum_list_replicate_zero: "sum_list (replicate n (0::real)) = 0"
  by (induction n) simp_all

lemma rel_strength_no_loss: "rel_strength u (Some 0) = 0"
  by (cases u) (simp_all add: rel_strength_def)

lemma fallback_rsi_no_loss:
  assumes "14 \<le> i" "i < length cs"
    and "\<And>j. i - 13 \<le> j \<Longrightarrow> j \<le> i \<Longrightarrow> cs ! (j - 1) \<le> cs ! j"
  shows "fallback_rsi cs ! i = Some 0"
proof -
  let ?ys = "clip_upper0 (diff cs)"
  have len: "length ?ys = length cs"
    by (simp add: clip_upper0_def length_diff)
  have cell: "?ys ! j = Some 0" if "Suc i - 14 \<le> j" "j \<le> i" for j
  proof -
    from that assms(1,2) have j: "0 < j" "j < length cs" by auto
    have "cs ! (j - 1) \<le> cs ! j"
      using that by (intro assms(3)) auto
    then show ?thesis
      using j by (auto simp: clip_upper0_def length_diff nth_diff)
  qed
  have "window 14 i ?ys = replicate 14 (Some 0)"
    using assms(1,2) cell by (intro window_all) (simp_all add: len)
  then have down: "rolling_mean 14 ?ys ! i = Some 0"
    using assms(1,2)
    by (simp add: rolling_mean_def len those_replicate_Some sum_list_replicate_zero)
  have "fallback_rsi cs ! i =
      Some (100 - 100 / (1 + rel_strength (rolling_mean 14 (clip_lower0 (diff cs)) ! i)
                              (map_option uminus (rolling_mean 14 ?ys ! i))))"
    using assms(2)
    by (simp add: fallback_rsi_def Let_def length_rolling_mean clip_lower0_def len length_diff)
  then show ?thesis
    by (simp add: down rel_strength_no_loss)
qed

lemma py_range_nonneg: "0 \<le> py_max h (Some p) - py_min l (Some p)"
  by simp

lemma nth_true_range:
  assumes "i < length df"
  shows "true_range (map high df) (map low df) (map pclose df) ! i =
           py_max (high (df ! i)) (shift 1 (map pclose df) ! i)
           - py_min (low (df ! i)) (shift 1 (map pclose df) ! i)"
  using assms by (simp add: true_range_def length_shift)

lemma true_range_nonneg:
  assumes "i < length df" "0 < i \<or> low (df ! 0) \<le> high (df ! 0)"
  shows "0 \<le> true_range (map high df) (map low df) (map pclose df) ! i"
proof (cases i)
  case 0
  with assms have "shift 1 (map pclose df) ! i = None" "low (df ! 0) \<le> high (df ! 0)"
    by (simp_all add: shift_def nth_append)
  with 0 assms(1) show ?thesis
    by (simp add: nth_true_range)
next
  case (Suc j)
  with assms(1) have "shift 1 (map pclose df) ! i = Some (map pclose df ! (i - 1))"
    by (intro nth_shift) simp_all
  with assms(1) show ?thesis
    by (simp only: nth_true_range py_range_nonneg)
qed

lemma sum_list_nonneg_nth:
  "(\<And>k. k < length xs \<Longrightarrow> 0 \<le> xs ! k) \<Longrightarrow> 0 \<le> sum_list (xs :: real list)"
  by (rule sum_list_nonneg) (auto simp: in_set_conv_nth)

lemma fallback_atr_nonneg:
  assumes "13 \<le> i" "i < length df" "14 \<le> i \<or> low (df ! 0) \<le> high (df ! 0)"
  shows "\<exists>a. fallback_atr (map high df) (map low df) (map pclose df) ! i = Some a \<and> 0 \<le> a"
proof -
  let ?tr = "true_range (map high df) (map low df) (map pclose df)"
  have atr: "fallback_atr (map high df) (map low df) (map pclose df) ! i =
      Some (sum_list (window 14 i ?tr) / real 14)"
    unfolding fallback_atr_def using assms(1,2)
    by (intro nth_rolling_mean_Some) (simp_all add: length_true_range)
  have "0 \<le> window 14 i ?tr ! k" if "k < length (window 14 i ?tr)" for k
  proof -
    from that assms(1,2) have k: "k < 14"
      by (simp add: length_window length_true_range)
    then have "window 14 i ?tr ! k = ?tr ! (Suc i - 14 + k)"
      using assms(1,2) by (simp add: nth_window length_true_range)
    moreover have "0 \<le> ?tr ! (Suc i - 14 + k)"
      using assms k by (intro true_range_nonneg) auto
    ultimately show ?thesis by simp
  qed
  then have "0 \<le> sum_list (window 14 i ?tr)"
    by (rule sum_list_nonneg_nth)
  then have "0 \<le> sum_list (window 14 i ?tr) / real 14"
    by simp
  with atr show ?thesis by blast
qed


lemma dropna_row_cells:
  assumes "dropna_row x = Some r"
  shows "rsi14 x = Some (rsi14 r)" "atr14 x = Some (atr14 r)" "ema8 x = Some (ema8 r)"
    "ema21 x = Some (ema21 r)" "ema50 x = Some (ema50 r)" "candle r = candle x"
  using assms by (auto simp: dropna_row_def split: option.splits if_splits)

lemma nth_fallback_frame:
  assumes "i < length df"
  shows "rsi14 (fallback_frame df ! i) = fallback_rsi (map pclose df) ! i"
    and "atr14 (fallback_frame df ! i) =
           fallback_atr (map high df) (map low df) (map pclose df) ! i"
  using assms by (simp_all add: fallback_frame_def Let_def with_columns_def)

lemma length_fallback_frame: "length (fallback_frame df) = length df"
  by (simp add: fallback_frame_def Let_def with_columns_def)

lemma rolling_mean_warm_up: "i < length xs \<Longrightarrow> rolling_mean w xs ! i = Some v \<Longrightarrow> w \<le> Suc i"
  by (auto simp: rolling_mean_def split: if_splits)

lemma fallback_rsi_all_gains:
  assumes "15 \<le> length df"
    and "\<And>j. length df - 14 \<le> j \<Longrightarrow> j < length df \<Longrightarrow> pclose (df ! (j - 1)) \<le> pclose (df ! j)"
    and "pclose (df ! (length df - 1)) \<noteq> 0 \<or> pclose (df ! (length df - 2)) \<noteq> 0"
    and "timestamp (df ! (length df - 1)) \<noteq> None"
  shows "compute_features None df \<noteq> [] \<and> rsi14 (last (compute_features None df)) = 0"
proof -
  let ?i = "length df - 1"
  from assms(1) have len: "14 \<le> length df" "3 \<le> length df" "df \<noteq> []" "?i < length df" "14 \<le> ?i"
    by auto
  obtain r where r: "dropna_row (last (fallback_frame df)) = Some r"
    using fallback_last_survives[OF len(1) assms(3,4)] by blast
  have "last (fallback_frame df) = fallback_frame df ! ?i"
    using len(3) by (simp add: last_conv_nth length_fallback_frame fallback_frame_nonempty)
  then have "Some (rsi14 r) = fallback_rsi (map pclose df) ! ?i"
    using dropna_row_cells(1)[OF r] nth_fallback_frame(1)[OF len(4)] by simp
  moreover have "fallback_rsi (map pclose df) ! ?i = Some 0"
  proof (rule fallback_rsi_no_loss)
    show "14 \<le> ?i" by (rule len(5))
    show "?i < length (map pclose df)" using len(4) by simp
    fix j assume j: "?i - 13 \<le> j" "j \<le> ?i"
    then have "pclose (df ! (j - 1)) \<le> pclose (df ! j)"
      using len by (intro assms(2)) auto
    then show "map pclose df ! (j - 1) \<le> map pclose df ! j"
      using j len by simp
  qed
  ultimately have "rsi14 r = 0" by simp
  with no_library_last_row[OF len(2) r] show ?thesis by simp
qed

lemma in_map_filter: "y \<in> set (List.map_filter f xs) \<Longrightarrow> \<exists>x\<in>set xs. f x = Some y"
  by (induction xs) (auto simp: List.map_filter_simps split: option.splits)

lemma fallback_atr14_nonneg:
  assumes "df \<noteq> []" "low (df ! 0) \<le> high (df ! 0)" "r \<in> set (fallback_features df)"
  shows "0 \<le> atr14 r"
proof -
  from assms(3) obtain x where x: "x \<in> set (fallback_frame df)" "dropna_row x = Some r"
    by (auto simp: fallback_features_def dropna_features_def dest: in_map_filter)
  then obtain i where i: "i < length df" "x = fallback_frame df ! i"
    by (auto simp: in_set_conv_nth length_fallback_frame)
  let ?atr = "fallback_atr (map high df) (map low df) (map pclose df)"
  have cell: "?atr ! i = Some (atr14 r)"
    using dropna_row_cells(2)[OF x(2)] nth_fallback_frame(2)[OF i(1)] i(2) by simp
  then have "14 \<le> Suc i"
    unfolding fallback_atr_def using i(1)
    by (intro rolling_mean_warm_up[of i _ 14 "atr14 r"]) (simp_all add: length_true_range)
  then have "13 \<le> i" by simp
  from fallback_atr_nonneg[OF this i(1)] assms(2) cell show ?thesis
    by auto
qed

end
